theory Spec2Isabelle
  imports Main
begin

section \<open>Python values, errors and strings\<close>

text \<open>
  The exceptions that the modelled code can raise.  The specification's
  \<open>ProtocolFormatError\<close> is what the code raises as \<open>ValueError\<close>.
  \<open>TypeError\<close>, \<open>AttributeError\<close>, \<open>KeyError\<close> and \<open>IndexError\<close> are the
  interpreter's own failures (a bad operand, an attribute never assigned, a
  missing dict key, an index out of range).  \<open>StatusError c\<close> stands for what
  \<open>errors.check_status\<close> raises on the unexpected status code \<open>c\<close>.
\<close>

datatype error =
    ValueError
  | TypeError
  | AttributeError
  | KeyError
  | IndexError
  | StatusError int

text \<open>The dynamically typed values that occur as parameters and header values.\<close>

datatype pyval = PyNone | PyStr string | PyInt int

fun truthy :: "pyval \<Rightarrow> bool" where
  "truthy PyNone = False"
| "truthy (PyStr s) = (s \<noteq> [])"
| "truthy (PyInt i) = (i \<noteq> 0)"

definition is_digit :: "char \<Rightarrow> bool" where
  "is_digit c = (c \<in> set ''0123456789'')"

definition digit_val :: "char \<Rightarrow> nat" where
  "digit_val c = of_char c - 48"

definition digits_val :: "string \<Rightarrow> nat" where
  "digits_val ds = foldl (\<lambda>acc c. 10 * acc + digit_val c) 0 ds"

definition is_space :: "char \<Rightarrow> bool" where
  "is_space c = (c \<in> set [CHR '' '', CHR 0x09, CHR 0x0A, CHR 0x0B, CHR 0x0C, CHR 0x0D])"

definition lower_char :: "char \<Rightarrow> char" where
  "lower_char c =
     (case map_of (zip ''ABCDEFGHIJKLMNOPQRSTUVWXYZ'' ''abcdefghijklmnopqrstuvwxyz'') c of
        None \<Rightarrow> c
      | Some d \<Rightarrow> d)"

text \<open>\<open>str.lower()\<close> on a byte string.\<close>

definition lower :: "string \<Rightarrow> string" where
  "lower s = map lower_char s"

text \<open>
  The builtins \<open>long(s)\<close> and \<open>int(s)\<close> on a byte string, base ten: blanks
  around the literal, an optional sign, at least one decimal digit; \<open>long\<close>
  also takes a trailing \<open>L\<close>.  Anything else raises \<open>ValueError\<close>.
\<close>

definition py_number :: "bool \<Rightarrow> string \<Rightarrow> error + int" where
  "py_number suffix s =
     (let s1 = dropWhile is_space s;
          (neg, s2) = (case s1 of
                         [] \<Rightarrow> (False, s1)
                       | c # r \<Rightarrow> if c = CHR ''+'' then (False, r)
                                  else if c = CHR ''-'' then (True, r)
                                  else (False, s1));
          s3 = dropWhile is_space s2;
          ds = takeWhile is_digit s3;
          r = dropWhile is_digit s3;
          r1 = (case r of
                  [] \<Rightarrow> []
                | c # r' \<Rightarrow> if suffix \<and> (c = CHR ''L'' \<or> c = CHR ''l'') then r' else r);
          r2 = dropWhile is_space r1
      in if ds = [] \<or> r2 \<noteq> [] then Inl ValueError
         else Inr (if neg then - int (digits_val ds) else int (digits_val ds)))"

definition py_long :: "string \<Rightarrow> error + int" where
  "py_long s = py_number True s"

definition py_int :: "string \<Rightarrow> error + int" where
  "py_int s = py_number False s"

text \<open>\<open>str(n)\<close> and the \<open>%d\<close> conversion of an integer.\<close>

fun nat_str :: "nat \<Rightarrow> string" where
  "nat_str n =
     (if n < 10 then [''0123456789'' ! n]
      else nat_str (n div 10) @ [''0123456789'' ! (n mod 10)])"

declare nat_str.simps [simp del]

definition int_str :: "int \<Rightarrow> string" where
  "int_str i = (if i < 0 then CHR ''-'' # nat_str (nat (- i)) else nat_str (nat i))"

text \<open>\<open>s.rsplit(c, 1)\<close>: split once, at the last occurrence of \<open>c\<close>.\<close>

definition rsplit1 :: "char \<Rightarrow> string \<Rightarrow> string list" where
  "rsplit1 c s =
     (if c \<in> set s
      then [rev (tl (dropWhile (\<lambda>x. x \<noteq> c) (rev s))), rev (takeWhile (\<lambda>x. x \<noteq> c) (rev s))]
      else [s])"

text \<open>\<open>s.split(c)\<close>: split at every occurrence of \<open>c\<close>.\<close>

fun split_on :: "char \<Rightarrow> string \<Rightarrow> string list" where
  "split_on c [] = [[]]"
| "split_on c (x # xs) =
     (if x = c then [] # split_on c xs
      else (case split_on c xs of
              [] \<Rightarrow> [[x]]
            | h # t \<Rightarrow> (x # h) # t))"

text \<open>\<open>s.rfind(c)\<close>: the index of the last occurrence of \<open>c\<close>, or \<open>-1\<close>.\<close>

definition rfind :: "char \<Rightarrow> string \<Rightarrow> int" where
  "rfind c s =
     (if c \<in> set s then int (length s) - 1 - int (length (takeWhile (\<lambda>x. x \<noteq> c) (rev s)))
      else - 1)"

section \<open>Dictionaries\<close>

text \<open>
  A dict is an association list with distinct keys; the order of the list
  stands for the order in which the dict is iterated.
\<close>

type_synonym ('k, 'v) dict = "('k \<times> 'v) list"

fun dict_set :: "('k, 'v) dict \<Rightarrow> 'k \<Rightarrow> 'v \<Rightarrow> ('k, 'v) dict" where
  "dict_set [] k v = [(k, v)]"
| "dict_set ((k', v') # d) k v = (if k' = k then (k, v) # d else (k', v') # dict_set d k v)"

definition dict_of :: "('k \<times> 'v) list \<Rightarrow> ('k, 'v) dict" where
  "dict_of ps = foldl (\<lambda>d (k, v). dict_set d k v) [] ps"

definition dict_update :: "('k, 'v) dict \<Rightarrow> ('k \<times> 'v) list \<Rightarrow> ('k, 'v) dict" where
  "dict_update d ps = foldl (\<lambda>d (k, v). dict_set d k v) d ps"

section \<open>The header codec of the stub dispatcher\<close>

text \<open>
  \<open>_Header.__init__\<close>: the value of the first header whose lower-cased name is
  the lower-cased \<open>HEADER\<close>, or \<open>DEFAULT\<close>.
\<close>

fun Header_init :: "string \<Rightarrow> pyval \<Rightarrow> (string, string) dict \<Rightarrow> pyval" where
  "Header_init HEADER DEFAULT [] = DEFAULT"
| "Header_init HEADER DEFAULT ((k, v) # headers) =
     (if lower k = lower HEADER then PyStr v else Header_init HEADER DEFAULT headers)"

text \<open>\<open>_ContentType\<close>: only the inherited constructor.\<close>

definition ContentType_init :: "(string, string) dict \<Rightarrow> pyval" where
  "ContentType_init headers = Header_init ''Content-Type'' (PyStr ''binary/octet-stream'') headers"

text \<open>
  \<open>RE_PATTERN.match\<close> for \<open>^bytes ([0-9]+)-([0-9]+)/([0-9]+|\*)$\<close>, returning the
  three groups.  A run of digits is followed by a character that is no digit,
  so the greedy run is the only way to match.  Python's \<open>$\<close> matches at the
  end of the string and also just before a newline that ends the string.
\<close>

definition at_end :: "string \<Rightarrow> bool" where
  "at_end r = (r = [] \<or> r = [CHR 0x0A])"

definition RE_PATTERN_match :: "string \<Rightarrow> (string \<times> string \<times> string) option" where
  "RE_PATTERN_match s =
     (if take 6 s \<noteq> ''bytes '' then None
      else let g1 = takeWhile is_digit (drop 6 s); r1 = dropWhile is_digit (drop 6 s)
           in if g1 = [] then None
              else (case r1 of
                      [] \<Rightarrow> None
                    | c1 # r1' \<Rightarrow>
                        if c1 \<noteq> CHR ''-'' then None
                        else let g2 = takeWhile is_digit r1'; r2 = dropWhile is_digit r1'
                             in if g2 = [] then None
                                else (case r2 of
                                        [] \<Rightarrow> None
                                      | c2 # r2' \<Rightarrow>
                                          if c2 \<noteq> CHR ''/'' then None
                                          else let g3 = takeWhile is_digit r2';
                                                   r3 = dropWhile is_digit r2'
                                               in if g3 \<noteq> [] then
                                                    (if at_end r3 then Some (g1, g2, g3) else None)
                                                  else (case r3 of
                                                          [] \<Rightarrow> None
                                                        | c3 # r3' \<Rightarrow>
                                                            if c3 = CHR ''*'' \<and> at_end r3'
                                                            then Some (g1, g2, ''*'')
                                                            else None))))"

text \<open>
  \<open>_ContentRange\<close>.  The attributes \<open>start\<close>, \<open>end\<close> and \<open>finished\<close> are
  assigned only when the header value is truthy; \<open>None\<close> in the record means
  that the attribute does not exist, and reading it raises \<open>AttributeError\<close>.
\<close>

record ContentRange =
  cr_value :: pyval
  cr_start :: "int option"
  cr_end :: "int option"
  cr_finished :: "bool option"

definition ContentRange_init :: "(string, string) dict \<Rightarrow> error + ContentRange" where
  "ContentRange_init headers =
     (let v = Header_init ''Content-Range'' PyNone headers
      in if truthy v then
           (case v of
              PyStr s \<Rightarrow>
                (case RE_PATTERN_match s of
                   None \<Rightarrow> Inl ValueError
                 | Some (g1, g2, g3) \<Rightarrow>
                     (case py_long g1 of
                        Inl e \<Rightarrow> Inl e
                      | Inr st \<Rightarrow>
                          (case py_long g2 of
                             Inl e \<Rightarrow> Inl e
                           | Inr en \<Rightarrow>
                               Inr \<lparr>cr_value = v, cr_start = Some st, cr_end = Some en,
                                    cr_finished = Some (g3 \<noteq> ''*'')\<rparr>)))
            | _ \<Rightarrow> Inl TypeError)
         else Inr \<lparr>cr_value = v, cr_start = None, cr_end = None, cr_finished = None\<rparr>)"

definition attr :: "'a option \<Rightarrow> error + 'a" where
  "attr a = (case a of None \<Rightarrow> Inl AttributeError | Some x \<Rightarrow> Inr x)"

text \<open>
  \<open>_Range\<close>: the part of the value after its last \<open>=\<close> is split at every
  \<open>-\<close>; unpacking the pieces into \<open>start, end\<close> raises \<open>ValueError\<close> unless
  there are exactly two.  Without a (truthy) header the value is \<open>(0, None)\<close>.
\<close>

definition Range_init :: "(string, string) dict \<Rightarrow> error + (int \<times> int option)" where
  "Range_init headers =
     (let v = Header_init ''Range'' PyNone headers
      in if truthy v then
           (case v of
              PyStr s \<Rightarrow>
                (case split_on CHR ''-'' (last (rsplit1 CHR ''='' s)) of
                   [a, b] \<Rightarrow>
                     (case py_long a of
                        Inl e \<Rightarrow> Inl e
                      | Inr st \<Rightarrow>
                          (case py_long b of
                             Inl e \<Rightarrow> Inl e
                           | Inr en \<Rightarrow> Inr (st, Some en)))
                 | _ \<Rightarrow> Inl ValueError)
            | _ \<Rightarrow> Inl TypeError)
         else Inr (0, None))"

text \<open>\<open>_get_param\<close>.\<close>

definition get_param :: "string \<Rightarrow> (string, string) dict \<Rightarrow> pyval \<Rightarrow> error + pyval" where
  "get_param param param_dict dflt =
     (let result = (case map_of param_dict param of None \<Rightarrow> dflt | Some v \<Rightarrow> PyStr v)
      in if param \<in> set [''max-keys''] \<and> truthy result then
           (case result of
              PyStr s \<Rightarrow> (case py_long s of Inl e \<Rightarrow> Inl e | Inr n \<Rightarrow> Inr (PyInt n))
            | PyInt n \<Rightarrow> Inr (PyInt n)
            | PyNone \<Rightarrow> Inl TypeError)
         else Inr result)"

section \<open>The storage stub and the library, as parameters\<close>

text \<open>
  \<open>common.CSFileStat\<close>, with the attributes that the dispatcher reads:
  \<open>filename\<close>, \<open>st_size\<close>, \<open>etag\<close>, \<open>st_ctime\<close>, \<open>content_type\<close> and \<open>metadata\<close>
  (an absent or empty \<open>metadata\<close> is the empty list).  The creation time is
  only handed on to \<open>common.posix_time_to_http\<close>, so its type is left open.
\<close>

record 't CSFileStat =
  stat_filename :: string
  st_size :: int
  stat_etag :: string
  st_ctime :: 't
  stat_content_type :: pyval
  stat_metadata :: "(string \<times> string) list"

text \<open>
  The operations of \<open>cloudstorage_stub.CloudStorageStub\<close> that the dispatcher
  calls.  The class is not among the sources, so the handlers take it as a
  parameter: every operation maps the state \<open>'s\<close> of the stub to its result
  or the exception it raises, and to the state afterwards.  The last argument
  of \<open>put_continue_creation\<close> is \<open>None\<close> where the caller leaves it out (a
  chunk that is not the last one) and \<open>Some True\<close> where the caller passes
  \<open>True\<close>.
\<close>

record ('s, 't) CloudStorageStub =
  post_start_creation :: "string \<Rightarrow> (string, string) dict \<Rightarrow> 's \<Rightarrow> (error + string) \<times> 's"
  put_continue_creation ::
    "pyval \<Rightarrow> string \<Rightarrow> int \<times> int \<Rightarrow> bool option \<Rightarrow> 's \<Rightarrow> (error + unit) \<times> 's"
  head_object :: "string \<Rightarrow> 's \<Rightarrow> (error + 't CSFileStat option) \<times> 's"
  get_object :: "string \<Rightarrow> int \<Rightarrow> int \<Rightarrow> 's \<Rightarrow> (error + string) \<times> 's"
  get_bucket ::
    "string \<Rightarrow> pyval \<Rightarrow> pyval \<Rightarrow> pyval \<Rightarrow> 's \<Rightarrow> (error + 't CSFileStat list) \<times> 's"
  delete_object :: "string \<Rightarrow> 's \<Rightarrow> (error + bool) \<times> 's"

text \<open>An element tree of \<open>xml.etree.ElementTree\<close>: tag, attributes, text, children.\<close>

datatype xml = Element (tag: string) (attrib: "(string \<times> string) list") (elem_text: pyval)
  (children: "xml list")

text \<open>
  What the code takes from the standard library and from the module
  \<open>common\<close>: \<open>urlsplit\<close> (the path and the query of a URL), \<open>parse_qs\<close> (with
  blank values kept), \<open>unquote\<close>, \<open>urlencode\<close>, \<open>ET.tostring\<close>, \<open>ET.fromstring\<close>,
  \<open>common.posix_time_to_http\<close>, \<open>common.CS_XML_NS\<close> and whether
  \<open>common.validate_bucket_path\<close> accepts a path.
\<close>

record 't env =
  urlsplit :: "string \<Rightarrow> string \<times> string"
  parse_qs :: "string \<Rightarrow> (string, string list) dict"
  unquote :: "string \<Rightarrow> string"
  urlencode :: "(string, pyval) dict \<Rightarrow> string"
  tostring :: "xml \<Rightarrow> string"
  fromstring :: "string \<Rightarrow> error + xml"
  posix_time_to_http :: "'t \<Rightarrow> string"
  CS_XML_NS :: string
  validate_bucket_path :: "string \<Rightarrow> bool"

section \<open>The stub dispatcher\<close>

definition MAX_GET_BUCKET_RESULT :: int where
  "MAX_GET_BUCKET_RESULT = 1000"

text \<open>\<open>_FakeUrlFetchResult\<close>, with the attributes \<open>status_code\<close>, \<open>headers\<close>, \<open>content\<close>.\<close>

record FakeUrlFetchResult =
  status_code :: int
  resp_headers :: "(string, pyval) dict"
  resp_content :: string

text \<open>
  \<open>_preprocess\<close>.  Every parameter is replaced by its first value, unquoted;
  the header names are lower-cased, a later header replacing an earlier one of
  the same lower-cased name.  The method is returned as it came.
\<close>

fun first_values :: "'t env \<Rightarrow> (string, string list) dict \<Rightarrow> error + (string, string) dict" where
  "first_values env [] = Inr []"
| "first_values env ((k, vs) # rest) =
     (case vs of
        [] \<Rightarrow> Inl IndexError
      | v # _ \<Rightarrow>
          (case first_values env rest of
             Inl e \<Rightarrow> Inl e
           | Inr d \<Rightarrow> Inr ((k, unquote env v) # d)))"

definition preprocess ::
  "'t env \<Rightarrow> string \<Rightarrow> (string, string) dict \<Rightarrow> string \<Rightarrow>
   error + (string \<times> (string, string) dict \<times> string \<times> (string, string) dict)" where
  "preprocess env method hdrs url =
     (let (filename, query) = urlsplit env url
      in case first_values env (parse_qs env query) of
           Inl e \<Rightarrow> Inl e
         | Inr param_dict \<Rightarrow>
             Inr (method, dict_of (map (\<lambda>(k, v). (lower k, v)) hdrs), filename, param_dict))"

text \<open>\<open>_handle_post\<close>.\<close>

definition handle_post ::
  "'t env \<Rightarrow> ('s, 't) CloudStorageStub \<Rightarrow> string \<Rightarrow> (string, string) dict \<Rightarrow> 's \<Rightarrow>
   (error + FakeUrlFetchResult) \<times> 's" where
  "handle_post env gs_stub filename hdrs s =
     (let content_type = ContentType_init hdrs
      in case post_start_creation gs_stub filename hdrs s of
           (Inl e, s') \<Rightarrow> (Inl e, s')
         | (Inr token, s') \<Rightarrow>
             (Inr \<lparr>status_code = 201,
                   resp_headers =
                     [(''location'', PyStr (''https://storage.googleapis.com/'' @ filename @ ''?'' @
                          urlencode env [(''upload_id'', PyStr token)])),
                      (''content-type'', content_type),
                      (''content-length'', PyInt 0)],
                   resp_content = []\<rparr>, s'))"

text \<open>The tuple \<open>(content_range.start, content_range.end)\<close>.\<close>

definition range_of :: "ContentRange \<Rightarrow> error + (int \<times> int)" where
  "range_of content_range =
     (case attr (cr_start content_range) of
        Inl e \<Rightarrow> Inl e
      | Inr st \<Rightarrow>
          (case attr (cr_end content_range) of
             Inl e \<Rightarrow> Inl e
           | Inr en \<Rightarrow> Inr (st, en)))"

text \<open>
  \<open>_handle_put\<close>.  The arguments of a call are evaluated before the call, so
  an attribute that does not exist raises before the stub is reached.
  \<open>filestat.st_size\<close> raises \<open>AttributeError\<close> when \<open>head_object\<close> gave \<open>None\<close>.
\<close>

definition handle_put ::
  "('s, 't) CloudStorageStub \<Rightarrow> string \<Rightarrow> (string, string) dict \<Rightarrow> (string, string) dict \<Rightarrow>
   string \<Rightarrow> 's \<Rightarrow> (error + FakeUrlFetchResult) \<times> 's" where
  "handle_put gs_stub filename param_dict hdrs payload s =
     (case get_param ''upload_id'' param_dict PyNone of
        Inl e \<Rightarrow> (Inl e, s)
      | Inr token \<Rightarrow>
          (case ContentRange_init hdrs of
             Inl e \<Rightarrow> (Inl e, s)
           | Inr content_range \<Rightarrow>
               (case (if truthy (cr_value content_range)
                      then (case attr (cr_finished content_range) of
                              Inl e \<Rightarrow> Inl e
                            | Inr fin \<Rightarrow> Inr (\<not> fin))
                      else Inr False) of
                  Inl e \<Rightarrow> (Inl e, s)
                | Inr True \<Rightarrow>
                    (case range_of content_range of
                       Inl e \<Rightarrow> (Inl e, s)
                     | Inr rng \<Rightarrow>
                         (case put_continue_creation gs_stub token payload rng None s of
                            (Inl e, s') \<Rightarrow> (Inl e, s')
                          | (Inr _, s') \<Rightarrow>
                              (Inr \<lparr>status_code = 308, resp_headers = [],
                                    resp_content = []\<rparr>, s')))
                | Inr False \<Rightarrow>
                    if truthy (cr_value content_range) \<or> payload = [] then
                      (case range_of content_range of
                         Inl e \<Rightarrow> (Inl e, s)
                       | Inr rng \<Rightarrow>
                           (case put_continue_creation gs_stub token payload rng (Some True) s of
                              (Inl e, s') \<Rightarrow> (Inl e, s')
                            | (Inr _, s') \<Rightarrow>
                                (case head_object gs_stub filename s' of
                                   (Inl e, s'') \<Rightarrow> (Inl e, s'')
                                 | (Inr None, s'') \<Rightarrow> (Inl AttributeError, s'')
                                 | (Inr (Some filestat), s'') \<Rightarrow>
                                     (Inr \<lparr>status_code = 200,
                                           resp_headers =
                                             [(''content-length'', PyInt (st_size filestat))],
                                           resp_content = []\<rparr>, s''))))
                    else (Inl ValueError, s))))"

text \<open>\<open>_handle_head\<close>.\<close>

definition handle_head ::
  "'t env \<Rightarrow> ('s, 't) CloudStorageStub \<Rightarrow> string \<Rightarrow> 's \<Rightarrow> (error + FakeUrlFetchResult) \<times> 's" where
  "handle_head env gs_stub filename s =
     (case head_object gs_stub filename s of
        (Inl e, s') \<Rightarrow> (Inl e, s')
      | (Inr None, s') \<Rightarrow> (Inr \<lparr>status_code = 404, resp_headers = [], resp_content = []\<rparr>, s')
      | (Inr (Some filestat), s') \<Rightarrow>
          (let http_time = posix_time_to_http env (st_ctime filestat);
               response_headers =
                 [(''content-length'', PyInt (st_size filestat)),
                  (''content-type'', stat_content_type filestat),
                  (''etag'', PyStr (stat_etag filestat)),
                  (''last-modified'', PyStr http_time)];
               response_headers' =
                 (if stat_metadata filestat \<noteq> []
                  then dict_update response_headers
                         (map (\<lambda>(k, v). (k, PyStr v)) (stat_metadata filestat))
                  else response_headers)
           in (Inr \<lparr>status_code = 200, resp_headers = response_headers',
                    resp_content = []\<rparr>, s')))"

text \<open>\<open>_handle_delete\<close>.\<close>

definition handle_delete ::
  "('s, 't) CloudStorageStub \<Rightarrow> string \<Rightarrow> 's \<Rightarrow> (error + FakeUrlFetchResult) \<times> 's" where
  "handle_delete gs_stub filename s =
     (case delete_object gs_stub filename s of
        (Inl e, s') \<Rightarrow> (Inl e, s')
      | (Inr deleted, s') \<Rightarrow>
          (Inr \<lparr>status_code = (if deleted then 204 else 404), resp_headers = [],
                resp_content = []\<rparr>, s'))"

text \<open>
  \<open>_handle_get_bucket\<close>.  The loop over \<open>stats\<close> appends one \<open>Contents\<close>
  element per entry and remembers the key of the entry it saw last.
\<close>

definition contents_element :: "'t env \<Rightarrow> string \<Rightarrow> 't CSFileStat \<Rightarrow> xml" where
  "contents_element env bucketpath stat =
     Element ''Contents'' [] PyNone
       [Element ''Key'' [] (PyStr (drop (length bucketpath + 1) (stat_filename stat))) [],
        Element ''LastModified'' [] (PyStr (posix_time_to_http env (st_ctime stat))) [],
        Element ''ETag'' [] (PyStr (stat_etag stat)) [],
        Element ''Size'' [] (PyStr (int_str (st_size stat))) []]"

definition list_bucket_result :: "'t env \<Rightarrow> string \<Rightarrow> 't CSFileStat list \<Rightarrow> xml" where
  "list_bucket_result env bucketpath stats =
     (let (built, last_object_name) =
            foldl (\<lambda>(built, last_object_name) stat.
                     (built @ [contents_element env bucketpath stat],
                      drop (length bucketpath + 1) (stat_filename stat)))
                  ([], []) stats;
          built' = (if int (length stats) = MAX_GET_BUCKET_RESULT
                    then built @ [Element ''NextMarker'' [] (PyStr last_object_name) []]
                    else built)
      in Element ''ListBucketResult'' [(''xmlns'', CS_XML_NS env)] PyNone built')"

definition handle_get_bucket ::
  "'t env \<Rightarrow> ('s, 't) CloudStorageStub \<Rightarrow> string \<Rightarrow> (string, string) dict \<Rightarrow> 's \<Rightarrow>
   (error + FakeUrlFetchResult) \<times> 's" where
  "handle_get_bucket env gs_stub bucketpath param_dict s =
     (case get_param ''prefix'' param_dict (PyStr []) of
        Inl e \<Rightarrow> (Inl e, s)
      | Inr prefix \<Rightarrow>
          (case get_param ''max-keys'' param_dict (PyInt MAX_GET_BUCKET_RESULT) of
             Inl e \<Rightarrow> (Inl e, s)
           | Inr max_keys \<Rightarrow>
               (case get_param ''marker'' param_dict (PyStr []) of
                  Inl e \<Rightarrow> (Inl e, s)
                | Inr marker \<Rightarrow>
                    (case get_bucket gs_stub bucketpath prefix marker max_keys s of
                       (Inl e, s') \<Rightarrow> (Inl e, s')
                     | (Inr stats, s') \<Rightarrow>
                         (let body = tostring env (list_bucket_result env bucketpath stats)
                          in (Inr \<lparr>status_code = 200,
                                   resp_headers =
                                     [(''content-length'', PyInt (int (length body))),
                                      (''content-type'', PyStr ''application/xml'')],
                                   resp_content = body\<rparr>, s'))))))"

text \<open>
  \<open>min(a, b)\<close> where \<open>b\<close> may be \<open>None\<close>: in Python 2 \<open>None\<close> is smaller than
  every number, so the minimum is \<open>None\<close> then.
\<close>

definition py_min :: "int \<Rightarrow> int option \<Rightarrow> int option" where
  "py_min a b = (case b of None \<Rightarrow> None | Some y \<Rightarrow> Some (min a y))"

text \<open>
  \<open>_handle_get\<close>.  A path whose only slash is the first character is a bucket.
  For an object, \<open>result.headers['content-length']\<close> raises \<open>KeyError\<close> when
  the key is missing, \<open>st_size - 1\<close> raises \<open>TypeError\<close> unless the value is a
  number, and so does \<open>%d\<close> for \<open>None\<close>.
\<close>

definition handle_get ::
  "'t env \<Rightarrow> ('s, 't) CloudStorageStub \<Rightarrow> string \<Rightarrow> (string, string) dict \<Rightarrow>
   (string, string) dict \<Rightarrow> 's \<Rightarrow> (error + FakeUrlFetchResult) \<times> 's" where
  "handle_get env gs_stub filename param_dict hdrs s =
     (if rfind CHR ''/'' filename = 0 then handle_get_bucket env gs_stub filename param_dict s
      else
        (case handle_head env gs_stub filename s of
           (Inl e, s1) \<Rightarrow> (Inl e, s1)
         | (Inr result, s1) \<Rightarrow>
             (case Range_init hdrs of
                Inl e \<Rightarrow> (Inl e, s1)
              | Inr (start, end0) \<Rightarrow>
                  (case map_of (resp_headers result) ''content-length'' of
                     None \<Rightarrow> (Inl KeyError, s1)
                   | Some PyNone \<Rightarrow> (Inl TypeError, s1)
                   | Some (PyStr _) \<Rightarrow> (Inl TypeError, s1)
                   | Some (PyInt sz) \<Rightarrow>
                       (case py_min (sz - 1) end0 of
                          None \<Rightarrow> (Inl TypeError, s1)
                        | Some end1 \<Rightarrow>
                            (let result' = result\<lparr>resp_headers :=
                                   dict_set (resp_headers result) ''content-range''
                                     (PyStr (''bytes: '' @ int_str start @ ''-'' @ int_str end1 @
                                             ''/'' @ int_str sz))\<rparr>
                             in case get_object gs_stub filename start end1 s1 of
                                  (Inl e, s2) \<Rightarrow> (Inl e, s2)
                                | (Inr c, s2) \<Rightarrow> (Inr (result'\<lparr>resp_content := c\<rparr>), s2)))))))"

text \<open>\<open>dispatch\<close>, on the state of the stub that it builds from the blobstore.\<close>

definition dispatch ::
  "'t env \<Rightarrow> ('s, 't) CloudStorageStub \<Rightarrow> string \<Rightarrow> (string, string) dict \<Rightarrow> string \<Rightarrow>
   string \<Rightarrow> 's \<Rightarrow> (error + FakeUrlFetchResult) \<times> 's" where
  "dispatch env gs_stub method hdrs url payload s =
     (case preprocess env method hdrs url of
        Inl e \<Rightarrow> (Inl e, s)
      | Inr (method', hdrs', filename, param_dict) \<Rightarrow>
          if method' = ''POST'' then handle_post env gs_stub filename hdrs' s
          else if method' = ''PUT'' then handle_put gs_stub filename param_dict hdrs' payload s
          else if method' = ''GET'' then handle_get env gs_stub filename param_dict hdrs' s
          else if method' = ''HEAD'' then handle_head env gs_stub filename s
          else if method' = ''DELETE'' then handle_delete gs_stub filename s
          else (Inl ValueError, s))"

section \<open>The client: listbucket and its iterator\<close>

text \<open>
  The storage API of the client (\<open>storage_api._StorageApi\<close>, not among the
  sources) as a parameter: \<open>get_bucket_async\<close> issues the request for a URL
  and gives a future, \<open>get_result\<close> waits for the status, the headers and the
  body.  Both act on the state \<open>'w\<close> of the service and the network.
\<close>

record ('w, 'f) StorageApi =
  get_bucket_async :: "string \<Rightarrow> 'w \<Rightarrow> 'f \<times> 'w"
  get_result :: "'f \<Rightarrow> 'w \<Rightarrow> (error + (int \<times> (string, pyval) dict \<times> string)) \<times> 'w"

text \<open>
  Modelled from the spec: \<open>errors.check_status\<close>, which is not among the
  sources.  A status code outside the expected ones is surfaced as an error
  that carries the raw code.
\<close>

definition check_status :: "int \<Rightarrow> int list \<Rightarrow> error + unit" where
  "check_status status expected = (if status \<in> set expected then Inr () else Inl (StatusError status))"

text \<open>\<open>_Bucket\<close>, with its attributes \<open>_path\<close>, \<open>_options\<close> and \<open>_get_bucket_fut\<close>.\<close>

record 'f Bucket =
  bucket_path :: string
  bucket_options :: "(string, pyval) dict"
  get_bucket_fut :: "'f option"

text \<open>
  What a consumer of the iterator can observe, in the order in which it
  happens: a request handed to \<open>get_bucket_async\<close> (with its URL) and a
  value yielded, which is \<open>CSFileStat(filename, st_size, etag)\<close>.
\<close>

datatype event = Fetch string | Yield string int pyval

text \<open>\<open>_Bucket.__init__\<close>: the first request is issued at once.\<close>

definition Bucket_init ::
  "'t env \<Rightarrow> ('w, 'f) StorageApi \<Rightarrow> string \<Rightarrow> (string, pyval) dict \<Rightarrow> 'w \<Rightarrow>
   event list \<times> 'f Bucket \<times> 'w" where
  "Bucket_init env api path options w =
     (let url = path @ ''?'' @ urlencode env options;
          (fut, w') = get_bucket_async api url w
      in ([Fetch url],
          \<lparr>bucket_path = path, bucket_options = options, get_bucket_fut = Some fut\<rparr>, w'))"

text \<open>\<open>listbucket\<close>: an option is sent only when its argument is truthy.\<close>

definition listbucket ::
  "'t env \<Rightarrow> ('w, 'f) StorageApi \<Rightarrow> string \<Rightarrow> pyval \<Rightarrow> pyval \<Rightarrow> pyval \<Rightarrow> 'w \<Rightarrow>
   error + (event list \<times> 'f Bucket \<times> 'w)" where
  "listbucket env api bucket marker prefix max_keys w =
     (if \<not> validate_bucket_path env bucket then Inl ValueError
      else let options = [];
               options1 = (if truthy marker then dict_set options ''marker'' marker else options);
               options2 = (if truthy max_keys then dict_set options1 ''max-keys'' max_keys
                           else options1);
               options3 = (if truthy prefix then dict_set options2 ''prefix'' prefix else options2)
           in Inr (Bucket_init env api bucket options3 w))"

text \<open>\<open>_add_ns\<close>, \<open>Element.find\<close> (the first child with the tag) and
  \<open>Element.getiterator\<close> (the element and all below it, in document order,
  that have the tag).\<close>

definition add_ns :: "'t env \<Rightarrow> string \<Rightarrow> string" where
  "add_ns env tagname = ''{'' @ CS_XML_NS env @ ''}'' @ tagname"

definition find_child :: "xml \<Rightarrow> string \<Rightarrow> xml option" where
  "find_child el t = find (\<lambda>c. tag c = t) (children el)"

fun descendants :: "xml \<Rightarrow> xml list" where
  "descendants (Element t a x cs) = Element t a x cs # concat (map descendants cs)"

definition getiterator :: "xml \<Rightarrow> string \<Rightarrow> xml list" where
  "getiterator el t = filter (\<lambda>c. tag c = t) (descendants el)"

text \<open>
  The arguments of \<open>CSFileStat\<close> for one \<open>Contents\<close> element, evaluated from
  left to right: \<open>.text\<close> of a child that does not exist raises
  \<open>AttributeError\<close>, a text that is \<open>None\<close> raises \<open>TypeError\<close> in the
  concatenation and in \<open>long\<close>.
\<close>

definition child_text :: "xml \<Rightarrow> string \<Rightarrow> error + pyval" where
  "child_text el t = (case find_child el t of None \<Rightarrow> Inl AttributeError | Some c \<Rightarrow> Inr (elem_text c))"

definition file_stat_of :: "'t env \<Rightarrow> string \<Rightarrow> xml \<Rightarrow> error + event" where
  "file_stat_of env path contents =
     (case child_text contents (add_ns env ''Key'') of
        Inl e \<Rightarrow> Inl e
      | Inr PyNone \<Rightarrow> Inl TypeError
      | Inr (PyInt _) \<Rightarrow> Inl TypeError
      | Inr (PyStr key) \<Rightarrow>
          (case child_text contents (add_ns env ''Size'') of
             Inl e \<Rightarrow> Inl e
           | Inr PyNone \<Rightarrow> Inl TypeError
           | Inr (PyInt n) \<Rightarrow> Inl TypeError
           | Inr (PyStr sz) \<Rightarrow>
               (case py_long sz of
                  Inl e \<Rightarrow> Inl e
                | Inr n \<Rightarrow>
                    (case child_text contents (add_ns env ''ETag'') of
                       Inl e \<Rightarrow> Inl e
                     | Inr et \<Rightarrow> Inr (Yield (path @ ''/'' @ key) n et)))))"

text \<open>
  The inner \<open>for\<close> loop: the values yielded before the first element that
  raises, and the exception if there is one.
\<close>

fun yield_all :: "'t env \<Rightarrow> string \<Rightarrow> xml list \<Rightarrow> event list \<times> error option" where
  "yield_all env path [] = ([], None)"
| "yield_all env path (c # cs) =
     (case file_stat_of env path c of
        Inl e \<Rightarrow> ([], Some e)
      | Inr y \<Rightarrow> (case yield_all env path cs of (ys, r) \<Rightarrow> (y # ys, r)))"

text \<open>
  The test \<open>(max_keys is None or total < int(max_keys.text)) and
  next_marker is not None\<close>, where \<open>max_keys\<close> and \<open>next_marker\<close> are the
  \<open>MaxKeys\<close> and \<open>NextMarker\<close> children of the page.
\<close>

definition more_pages :: "'t env \<Rightarrow> xml \<Rightarrow> int \<Rightarrow> error + bool" where
  "more_pages env root tot =
     (let max_keys = find_child root (add_ns env ''MaxKeys'');
          next_marker = find_child root (add_ns env ''NextMarker'')
      in case max_keys of
           None \<Rightarrow> Inr (next_marker \<noteq> None)
         | Some mk \<Rightarrow>
             (case elem_text mk of
                PyStr t \<Rightarrow>
                  (case py_int t of
                     Inl e \<Rightarrow> Inl e
                   | Inr k \<Rightarrow> Inr (tot < k \<and> next_marker \<noteq> None))
              | PyInt k \<Rightarrow> Inr (tot < k \<and> next_marker \<noteq> None)
              | PyNone \<Rightarrow> Inl TypeError))"

text \<open>
  \<open>_Bucket.__iter__\<close>, run until the generator ends: the events in their
  order, the exception that ended it if one did, and the bucket and the
  service afterwards.  The \<open>while\<close> loop has no bound of its own (a service
  may hand out a next marker for ever), so the first argument bounds the
  number of pages fetched, and the result is \<open>None\<close> when that bound is
  used up before the loop ends.
\<close>

fun Bucket_iter ::
  "nat \<Rightarrow> 't env \<Rightarrow> ('w, 'f) StorageApi \<Rightarrow> 'f Bucket \<Rightarrow> int \<Rightarrow> 'w \<Rightarrow>
   (event list \<times> error option \<times> 'f Bucket \<times> 'w) option" where
  "Bucket_iter n env api b tot w =
     (case get_bucket_fut b of
        None \<Rightarrow> Some ([], None, b, w)
      | Some fut \<Rightarrow>
          (case n of
             0 \<Rightarrow> None
           | Suc m \<Rightarrow>
               (case get_result api fut w of
                  (Inl e, w1) \<Rightarrow> Some ([], Some e, b, w1)
                | (Inr (status, _, content), w1) \<Rightarrow>
                    (case check_status status [200] of
                       Inl e \<Rightarrow> Some ([], Some e, b, w1)
                     | Inr _ \<Rightarrow>
                         (case fromstring env content of
                            Inl e \<Rightarrow> Some ([], Some e, b, w1)
                          | Inr root \<Rightarrow>
                              (case yield_all env (bucket_path b)
                                      (getiterator root (add_ns env ''Contents'')) of
                                 (ys, Some e) \<Rightarrow> Some (ys, Some e, b, w1)
                               | (ys, None) \<Rightarrow>
                                   (let tot' = tot + int (length ys)
                                    in case more_pages env root tot' of
                                         Inl e \<Rightarrow> Some (ys, Some e, b, w1)
                                       | Inr True \<Rightarrow>
                                           (let next_marker =
                                                  the (find_child root (add_ns env ''NextMarker''));
                                                options = dict_set (bucket_options b) ''marker''
                                                            (elem_text next_marker);
                                                url = bucket_path b @ ''?'' @ urlencode env options;
                                                (fut', w2) = get_bucket_async api url w1;
                                                b' = b\<lparr>bucket_options := options,
                                                       get_bucket_fut := Some fut'\<rparr>
                                            in map_option
                                                 (\<lambda>(evs, r). (ys @ Fetch url # evs, r))
                                                 (Bucket_iter m env api b' tot' w2))
                                       | Inr False \<Rightarrow>
                                           map_option (\<lambda>(evs, r). (ys @ evs, r))
                                             (Bucket_iter m env api
                                                (b\<lparr>get_bucket_fut := None\<rparr>) tot' w1))))))))"

declare Bucket_iter.simps [simp del]

section \<open>Instances of the parameters, for running the model on examples\<close>

text \<open>
  Modelled from the spec: the in-memory service behind the dispatcher
  (\<open>cloudstorage_stub\<close>), which is not among the sources.  It keeps the
  committed objects ordered by path and the open upload sessions by token;
  a chunk is appended to its session, the last chunk commits the object and
  ends the session; a listing gives the objects under the prefix, after the
  marker (exclusive), up to the page size.
\<close>

record mem_state =
  files :: "(string, string) dict"
  uploads :: "(string, string \<times> string) dict"

fun str_less :: "string \<Rightarrow> string \<Rightarrow> bool" where
  "str_less [] [] = False"
| "str_less [] (y # ys) = True"
| "str_less (x # xs) [] = False"
| "str_less (x # xs) (y # ys) =
     ((of_char x :: nat) < of_char y \<or> (x = y \<and> str_less xs ys))"

fun put_file :: "string \<Rightarrow> string \<Rightarrow> (string, string) dict \<Rightarrow> (string, string) dict" where
  "put_file fn c [] = [(fn, c)]"
| "put_file fn c ((k, v) # d) =
     (if k = fn then (fn, c) # d
      else if str_less fn k then (fn, c) # (k, v) # d
      else (k, v) # put_file fn c d)"

definition mem_stat :: "string \<times> string \<Rightarrow> unit CSFileStat" where
  "mem_stat f =
     \<lparr>stat_filename = fst f, st_size = int (length (snd f)), stat_etag = ''etag'', st_ctime = (),
      stat_content_type = PyStr ''binary/octet-stream'', stat_metadata = []\<rparr>"

definition mem_stub :: "(mem_state, unit) CloudStorageStub" where
  "mem_stub =
     \<lparr>post_start_creation = (\<lambda>filename hdrs s.
        (Inr (''upload:'' @ filename),
         s\<lparr>uploads := dict_set (uploads s) (''upload:'' @ filename) (filename, [])\<rparr>)),
      put_continue_creation = (\<lambda>token payload rng final s.
        (case token of
           PyStr t \<Rightarrow>
             (case map_of (uploads s) t of
                None \<Rightarrow> (Inl ValueError, s)
              | Some (fn, buf) \<Rightarrow>
                  if final = Some True
                  then (Inr (), s\<lparr>files := put_file fn (buf @ payload) (files s),
                                  uploads := filter (\<lambda>u. fst u \<noteq> t) (uploads s)\<rparr>)
                  else (Inr (), s\<lparr>uploads := dict_set (uploads s) t (fn, buf @ payload)\<rparr>))
         | _ \<Rightarrow> (Inl ValueError, s))),
      head_object = (\<lambda>filename s.
        (Inr (map_option (\<lambda>c. mem_stat (filename, c)) (map_of (files s) filename)), s)),
      get_object = (\<lambda>filename start end1 s.
        (case map_of (files s) filename of
           None \<Rightarrow> (Inl ValueError, s)
         | Some c \<Rightarrow> (Inr (take (nat (end1 - start + 1)) (drop (nat start) c)), s))),
      get_bucket = (\<lambda>bucketpath prefix marker max_keys s.
        (let full = bucketpath @ ''/'' @ (case prefix of PyStr p \<Rightarrow> p | _ \<Rightarrow> []);
             under = filter (\<lambda>f. take (length full) (fst f) = full) (files s);
             after = (case marker of
                        PyStr m \<Rightarrow>
                          if m = [] then under
                          else filter (\<lambda>f. str_less (bucketpath @ ''/'' @ m) (fst f)) under
                      | _ \<Rightarrow> under);
             page = (case max_keys of PyInt k \<Rightarrow> take (nat k) after | _ \<Rightarrow> after)
         in (Inr (map mem_stat page), s))),
      delete_object = (\<lambda>filename s.
        (Inr (map_of (files s) filename \<noteq> None),
         s\<lparr>files := filter (\<lambda>f. fst f \<noteq> filename) (files s)\<rparr>))\<rparr>"

text \<open>
  A plain instance of the library: a URL is a path and a query, parameters
  and values need no quoting, and a tree is written without attributes.
\<close>

fun render :: "xml \<Rightarrow> string" where
  "render (Element t a x cs) =
     ''<'' @ t @ ''>'' @ (case x of PyStr s \<Rightarrow> s | _ \<Rightarrow> []) @ concat (map render cs) @
     ''</'' @ t @ ''>''"

definition plain_value :: "pyval \<Rightarrow> string" where
  "plain_value v = (case v of PyNone \<Rightarrow> ''None'' | PyStr s \<Rightarrow> s | PyInt i \<Rightarrow> int_str i)"

fun plain_urlencode :: "(string, pyval) dict \<Rightarrow> string" where
  "plain_urlencode [] = []"
| "plain_urlencode [(k, v)] = k @ ''='' @ plain_value v"
| "plain_urlencode ((k, v) # d) = k @ ''='' @ plain_value v @ ''&'' @ plain_urlencode d"

definition plain_env :: "unit env" where
  "plain_env =
     \<lparr>urlsplit = (\<lambda>url. (takeWhile (\<lambda>c. c \<noteq> CHR ''?'') url,
                          drop 1 (dropWhile (\<lambda>c. c \<noteq> CHR ''?'') url))),
      parse_qs = (\<lambda>query.
        if query = [] then []
        else map (\<lambda>kv. (takeWhile (\<lambda>c. c \<noteq> CHR ''='') kv,
                        [drop 1 (dropWhile (\<lambda>c. c \<noteq> CHR ''='') kv)]))
               (split_on CHR ''&'' query)),
      unquote = (\<lambda>v. v),
      urlencode = plain_urlencode,
      tostring = render,
      fromstring = (\<lambda>c. Inl ValueError),
      posix_time_to_http = (\<lambda>t. ''Thu, 01 Jan 1970 00:00:00 GMT''),
      CS_XML_NS = ''http://doc.s3.amazonaws.com/2006-03-01'',
      validate_bucket_path = (\<lambda>p. rfind CHR ''/'' p = 0 \<and> 1 < length p)\<rparr>"

text \<open>A state of the in-memory service: the bucket \<open>/b\<close> with exactly 1000 objects.\<close>

definition full_bucket :: mem_state where
  "full_bucket =
     \<lparr>files = map (\<lambda>i. (''/b/'' @ replicate i CHR ''a'', [])) [1..<1001], uploads = []\<rparr>"

text \<open>
  A service with two canned pages, for the iterator: the response to a URL
  names a page, and the parser knows the tree of each page.  The buckets are
  the iterator before its first and its second page.
\<close>

definition ns_element :: "string \<Rightarrow> pyval \<Rightarrow> xml list \<Rightarrow> xml" where
  "ns_element t x cs = Element (add_ns plain_env t) [] x cs"

definition canned_pages :: "(string \<times> xml) list" where
  "canned_pages =
     [(''page 1'',
       ns_element ''ListBucketResult'' PyNone
         [ns_element ''Contents'' PyNone
            [ns_element ''Key'' (PyStr ''k1'') [], ns_element ''ETag'' (PyStr ''e1'') [],
             ns_element ''Size'' (PyStr ''10'') []],
          ns_element ''NextMarker'' (PyStr ''k1'') []]),
      (''page 2'',
       ns_element ''ListBucketResult'' PyNone
         [ns_element ''MaxKeys'' (PyStr ''2'') [],
          ns_element ''Contents'' PyNone
            [ns_element ''Key'' (PyStr ''k2'') [], ns_element ''ETag'' (PyStr ''e2'') [],
             ns_element ''Size'' (PyStr ''20'') []],
          ns_element ''NextMarker'' (PyStr ''k2'') []])]"

definition canned_env :: "unit env" where
  "canned_env =
     plain_env\<lparr>fromstring :=
       (\<lambda>c. case map_of canned_pages c of None \<Rightarrow> Inl ValueError | Some root \<Rightarrow> Inr root)\<rparr>"

definition canned_api :: "(unit, string) StorageApi" where
  "canned_api =
     \<lparr>get_bucket_async = (\<lambda>url w. (url, w)),
      get_result = (\<lambda>fut w.
        (case map_of [(''/b?max-keys=1'', ''page 1''), (''/b?max-keys=1&marker=k1'', ''page 2'')]
                fut of
           None \<Rightarrow> (Inr (404, [], []), w)
         | Some c \<Rightarrow> (Inr (200, [], c), w)))\<rparr>"

definition first_bucket :: "string Bucket" where
  "first_bucket =
     \<lparr>bucket_path = ''/b'', bucket_options = [(''max-keys'', PyInt 1)],
      get_bucket_fut = Some ''/b?max-keys=1''\<rparr>"

definition second_bucket :: "string Bucket" where
  "second_bucket =
     \<lparr>bucket_path = ''/b'', bucket_options = [(''max-keys'', PyInt 1), (''marker'', PyStr ''k1'')],
      get_bucket_fut = Some ''/b?max-keys=1&marker=k1''\<rparr>"

section \<open>The wire grammar, in the words of the specification\<close>

text \<open>A non-empty run of decimal digits.\<close>

definition digits :: "string \<Rightarrow> bool" where
  "digits a = (a \<noteq> [] \<and> list_all is_digit a)"

text \<open>The content-range value \<open>bytes <start>-<end>/<total-or-*>\<close>.\<close>

definition content_range_form :: "string \<Rightarrow> string \<Rightarrow> string \<Rightarrow> string" where
  "content_range_form a b t = ''bytes '' @ a @ ''-'' @ b @ ''/'' @ t"

definition content_range_grammar :: "string \<Rightarrow> bool" where
  "content_range_grammar v =
     (\<exists>a b t. digits a \<and> digits b \<and> (t = ''*'' \<or> digits t) \<and> v = content_range_form a b t)"

text \<open>A value of that grammar with one newline after it.\<close>

definition content_range_then_newline :: "string \<Rightarrow> bool" where
  "content_range_then_newline v = (\<exists>u. content_range_grammar u \<and> v = u @ [CHR 0x0A])"

text \<open>
  The page size that a listing page declares: the number in its \<open>MaxKeys\<close>
  element, if it has one.
\<close>

definition declared_max_keys :: "'t env \<Rightarrow> xml \<Rightarrow> error + int option" where
  "declared_max_keys env root =
     (case find_child root (add_ns env ''MaxKeys'') of
        None \<Rightarrow> Inr None
      | Some el \<Rightarrow>
          (case elem_text el of
             PyStr t \<Rightarrow> (case py_int t of Inl e \<Rightarrow> Inl e | Inr k \<Rightarrow> Inr (Some k))
           | PyInt k \<Rightarrow> Inr (Some k)
           | PyNone \<Rightarrow> Inl TypeError))"

section \<open>Lemmas on the header codec\<close>


lemma is_digit_not_special:
  "is_digit c \<Longrightarrow> c \<noteq> CHR ''-'' \<and> c \<noteq> CHR ''/'' \<and> c \<noteq> CHR ''*'' \<and> c \<noteq> CHR ''=''
     \<and> c \<noteq> CHR ''+'' \<and> c \<noteq> CHR 0x0A \<and> c \<noteq> CHR ''L'' \<and> c \<noteq> CHR ''l'' \<and> \<not> is_space c"
  by (auto simp: is_digit_def is_space_def)

lemma takeWhile_digits [simp]:
  "list_all is_digit a \<Longrightarrow> \<not> is_digit c \<Longrightarrow> takeWhile is_digit (a @ c # r) = a"
  by (induction a) auto

lemma dropWhile_digits [simp]:
  "list_all is_digit a \<Longrightarrow> \<not> is_digit c \<Longrightarrow> dropWhile is_digit (a @ c # r) = c # r"
  by (induction a) auto

lemma takeWhile_all_digits [simp]:
  "list_all is_digit a \<Longrightarrow> takeWhile is_digit a = a"
  by (induction a) auto

lemma dropWhile_all_digits [simp]:
  "list_all is_digit a \<Longrightarrow> dropWhile is_digit a = []"
  by (induction a) auto

lemma list_all_takeWhile [simp]: "list_all P (takeWhile P xs)"
  by (induction xs) auto

lemma py_number_digits:
  assumes "list_all is_digit a" "a \<noteq> []"
  shows "py_number b a = Inr (int (digits_val a))"
proof -
  obtain c r where a: "a = c # r" using assms(2) by (cases a) auto
  with assms(1) have c: "is_digit c" and r: "list_all is_digit r" by auto
  from is_digit_not_special [OF c] have sp: "\<not> is_space c" "c \<noteq> CHR ''+''" "c \<noteq> CHR ''-''"
    by auto
  have "dropWhile is_space a = a" using a sp by simp
  moreover have "takeWhile is_digit a = a" "dropWhile is_digit a = []" using assms(1) by auto
  ultimately show ?thesis using a sp
    by (simp add: py_number_def Let_def)
qed

lemma match_form:
  assumes "digits a" "digits b" "t = ''*'' \<or> digits t" "at_end r"
  shows "RE_PATTERN_match (content_range_form a b t @ r) = Some (a, b, t)"
proof -
  have nd: "\<not> is_digit CHR ''-''" "\<not> is_digit CHR ''/''" "\<not> is_digit CHR ''*''" "\<not> is_digit CHR 0x0A"
    by (simp_all add: is_digit_def)
  from assms(3) show ?thesis
  proof
    assume t: "t = ''*''"
    show ?thesis using assms(1,2,4) nd t
      by (simp add: RE_PATTERN_match_def content_range_form_def digits_def Let_def)
  next
    assume t: "digits t"
    have tw: "takeWhile is_digit (t @ r) = t \<and> dropWhile is_digit (t @ r) = r"
      using t assms(4) nd by (cases r) (auto simp: at_end_def digits_def)
    show ?thesis using assms(1,2,4) nd t tw
      by (simp add: RE_PATTERN_match_def content_range_form_def digits_def Let_def)
  qed
qed

lemma match_sound:
  assumes "RE_PATTERN_match s = Some (a, b, t)"
  shows "digits a \<and> digits b \<and> (t = ''*'' \<or> digits t) \<and>
         (\<exists>r. at_end r \<and> s = content_range_form a b t @ r)"
proof -
  let ?u = "drop 6 s"
  let ?g1 = "takeWhile is_digit ?u"
  let ?r1 = "dropWhile is_digit ?u"
  from assms have p: "take 6 s = ''bytes ''" and g1: "?g1 \<noteq> []"
    by (auto simp: RE_PATTERN_match_def Let_def split: if_splits)
  from assms p g1 obtain r1' where r1: "?r1 = CHR ''-'' # r1'"
    by (auto simp: RE_PATTERN_match_def Let_def split: if_splits list.splits)
  let ?g2 = "takeWhile is_digit r1'"
  let ?r2 = "dropWhile is_digit r1'"
  from assms p g1 r1 have g2: "?g2 \<noteq> []"
    by (auto simp: RE_PATTERN_match_def Let_def split: if_splits list.splits)
  from assms p g1 r1 g2 obtain r2' where r2: "?r2 = CHR ''/'' # r2'"
    by (auto simp: RE_PATTERN_match_def Let_def split: if_splits list.splits)
  let ?g3 = "takeWhile is_digit r2'"
  let ?r3 = "dropWhile is_digit r2'"
  from assms p g1 r1 g2 r2 have ab: "a = ?g1" "b = ?g2"
    by (auto simp: RE_PATTERN_match_def Let_def split: if_splits list.splits)
  have s1: "s = ''bytes '' @ ?u" using p append_take_drop_id [of 6 s] by simp
  have s2: "?u = ?g1 @ CHR ''-'' # r1'" using takeWhile_dropWhile_id [of is_digit ?u] r1 by simp
  have s3: "r1' = ?g2 @ CHR ''/'' # r2'" using takeWhile_dropWhile_id [of is_digit r1'] r2 by simp
  have s4: "r2' = ?g3 @ ?r3" by simp
  have s: "s = ''bytes '' @ a @ ''-'' @ b @ ''/'' @ r2'"
    using s1 s2 s3 ab by simp
  have da: "digits a" "digits b" using ab g1 g2 by (simp_all add: digits_def)
  show ?thesis
  proof (cases "?g3 = []")
    case False
    with assms p g1 r1 g2 r2 have t: "t = ?g3" and e: "at_end ?r3"
      by (auto simp: RE_PATTERN_match_def Let_def split: if_splits list.splits)
    have "s = content_range_form a b t @ ?r3" using s s4 t
      by (simp add: content_range_form_def)
    moreover have "digits t" using t False by (simp add: digits_def)
    ultimately show ?thesis using da e by blast
  next
    case True
    with assms p g1 r1 g2 r2 obtain r3' where t: "t = ''*''" and r3: "?r3 = CHR ''*'' # r3'"
      and e: "at_end r3'"
      by (auto simp: RE_PATTERN_match_def Let_def split: if_splits list.splits)
    have "r2' = CHR ''*'' # r3'" using s4 True r3 by simp
    then have "s = content_range_form a b t @ r3'" using s t
      by (simp add: content_range_form_def)
    then show ?thesis using da e t by blast
  qed
qed

lemma grammar_match: "content_range_grammar v \<Longrightarrow> RE_PATTERN_match v \<noteq> None"
  using match_form [where r = "[]"] by (auto simp: content_range_grammar_def at_end_def)

lemma py_long_digits: "digits a \<Longrightarrow> py_long a = Inr (int (digits_val a))"
  by (simp add: py_long_def digits_def py_number_digits)

lemma ContentRange_init_form:
  assumes "Header_init ''Content-Range'' PyNone hdrs = PyStr (content_range_form a b t @ r)"
    and "digits a" "digits b" "t = ''*'' \<or> digits t" "at_end r"
  shows "ContentRange_init hdrs =
           Inr \<lparr>cr_value = PyStr (content_range_form a b t @ r),
                cr_start = Some (int (digits_val a)), cr_end = Some (int (digits_val b)),
                cr_finished = Some (t \<noteq> ''*'')\<rparr>"
proof -
  have ne: "content_range_form a b t @ r \<noteq> []" by (simp add: content_range_form_def)
  show ?thesis
    using assms(1) ne match_form [OF assms(2-5)] py_long_digits [OF assms(2)]
      py_long_digits [OF assms(3)]
    by (simp add: ContentRange_init_def)
qed

lemma ContentRange_init_reject:
  assumes "Header_init ''Content-Range'' PyNone hdrs = PyStr v" "v \<noteq> []"
    and "RE_PATTERN_match v = None"
  shows "ContentRange_init hdrs = Inl ValueError"
  using assms by (simp add: ContentRange_init_def)

lemma newline_match:
  "content_range_then_newline v \<Longrightarrow> RE_PATTERN_match v \<noteq> None"
  using match_form [where r = "[CHR 0x0A]"]
  by (auto simp: content_range_then_newline_def content_range_grammar_def at_end_def)

lemma no_match_outside_grammar:
  assumes "\<not> content_range_grammar v" "\<not> content_range_then_newline v"
  shows "RE_PATTERN_match v = None"
proof (rule ccontr)
  assume "RE_PATTERN_match v \<noteq> None"
  then obtain a b t where m: "RE_PATTERN_match v = Some (a, b, t)" by auto
  from match_sound [OF m] obtain r where
    d: "digits a" "digits b" "t = ''*'' \<or> digits t" and r: "at_end r"
    and v: "v = content_range_form a b t @ r" by blast
  have g: "content_range_grammar (content_range_form a b t)"
    using d by (auto simp: content_range_grammar_def)
  from r have "r = [] \<or> r = [CHR 0x0A]" by (simp add: at_end_def)
  then show False
  proof
    assume "r = []"
    with v g assms(1) show False by simp
  next
    assume "r = [CHR 0x0A]"
    with v g have "content_range_then_newline v"
      by (auto simp: content_range_then_newline_def)
    with assms(2) show False by simp
  qed
qed

lemmas codec_eval = lower_def lower_char_def RE_PATTERN_match_def is_digit_def at_end_def
  py_long_def py_int_def py_number_def is_space_def digits_val_def digit_val_def Let_def

text \<open>
  Claim C8, as the code has it.  \<open>_ContentRange\<close> parses \<open>bytes 0-99/*\<close> to
  start 0, end 99, not finished, and \<open>bytes 0-99/100\<close> to start 0, end 99,
  finished; of the total it keeps only whether it was a number.  Every header
  value that is not empty and is not of the form
  \<open>bytes <digits>-<digits>/<digits-or-*>\<close>, nor of that form with one newline
  after it, raises \<open>ValueError\<close>.  An empty value is taken like an absent
  header: nothing is parsed, nothing is raised, and \<open>start\<close>, \<open>end\<close> and
  \<open>finished\<close> are not assigned.
\<close>

theorem ContentRange_parser:
  "ContentRange_init [(''content-range'', ''bytes 0-99/*'')] =
     Inr \<lparr>cr_value = PyStr ''bytes 0-99/*'', cr_start = Some 0, cr_end = Some 99,
          cr_finished = Some False\<rparr> \<and>
   ContentRange_init [(''content-range'', ''bytes 0-99/100'')] =
     Inr \<lparr>cr_value = PyStr ''bytes 0-99/100'', cr_start = Some 0, cr_end = Some 99,
          cr_finished = Some True\<rparr> \<and>
   (\<forall>hdrs v. Header_init ''Content-Range'' PyNone hdrs = PyStr v \<and> v \<noteq> [] \<and>
       \<not> content_range_grammar v \<and> \<not> content_range_then_newline v \<longrightarrow>
       ContentRange_init hdrs = Inl ValueError) \<and>
   (\<forall>hdrs. Header_init ''Content-Range'' PyNone hdrs = PyStr [] \<longrightarrow>
       ContentRange_init hdrs =
         Inr \<lparr>cr_value = PyStr [], cr_start = None, cr_end = None, cr_finished = None\<rparr>)"
proof (intro conjI allI impI)
  show "ContentRange_init [(''content-range'', ''bytes 0-99/*'')] =
     Inr \<lparr>cr_value = PyStr ''bytes 0-99/*'', cr_start = Some 0, cr_end = Some 99,
          cr_finished = Some False\<rparr>"
    by (simp add: ContentRange_init_def codec_eval)
  show "ContentRange_init [(''content-range'', ''bytes 0-99/100'')] =
     Inr \<lparr>cr_value = PyStr ''bytes 0-99/100'', cr_start = Some 0, cr_end = Some 99,
          cr_finished = Some True\<rparr>"
    by (simp add: ContentRange_init_def codec_eval)
next
  fix hdrs v
  assume "Header_init ''Content-Range'' PyNone hdrs = PyStr v \<and> v \<noteq> [] \<and>
       \<not> content_range_grammar v \<and> \<not> content_range_then_newline v"
  then show "ContentRange_init hdrs = Inl ValueError"
    using ContentRange_init_reject no_match_outside_grammar by blast
next
  fix hdrs
  assume "Header_init ''Content-Range'' PyNone hdrs = PyStr []"
  then show "ContentRange_init hdrs =
         Inr \<lparr>cr_value = PyStr [], cr_start = None, cr_end = None, cr_finished = None\<rparr>"
    by (simp add: ContentRange_init_def)
qed

text \<open>
  Claim C8 as stated fails at the empty header value: it is not of the form
  of the grammar, and the parser does not raise.
\<close>

theorem ContentRange_empty_value_counterexample:
  "\<not> content_range_grammar [] \<and> ContentRange_init [(''content-range'', [])] \<noteq> Inl ValueError"
  by (simp add: content_range_grammar_def content_range_form_def ContentRange_init_def
      lower_def lower_char_def)

text \<open>
  Three values outside the grammar: \<open>bytes 1-3\<close>, a value with a newline in
  place of the blank, and a value of the grammar with two newlines after it;
  and the empty value.
\<close>

theorem ContentRange_parser_witness:
  "Header_init ''Content-Range'' PyNone [(''content-range'', ''bytes 1-3'')] = PyStr ''bytes 1-3'' \<and>
   ''bytes 1-3'' \<noteq> [] \<and> \<not> content_range_grammar ''bytes 1-3'' \<and>
   \<not> content_range_then_newline ''bytes 1-3'' \<and>
   ContentRange_init [(''content-range'', ''bytes 1-3'')] = Inl ValueError \<and>
   \<not> content_range_grammar (''bytes'' @ [CHR 0x0A] @ ''0-99/*'') \<and>
   \<not> content_range_then_newline (''bytes'' @ [CHR 0x0A] @ ''0-99/*'') \<and>
   ContentRange_init [(''content-range'', ''bytes'' @ [CHR 0x0A] @ ''0-99/*'')] = Inl ValueError \<and>
   \<not> content_range_grammar (''bytes 0-99/*'' @ [CHR 0x0A, CHR 0x0A]) \<and>
   \<not> content_range_then_newline (''bytes 0-99/*'' @ [CHR 0x0A, CHR 0x0A]) \<and>
   ContentRange_init [(''content-range'', ''bytes 0-99/*'' @ [CHR 0x0A, CHR 0x0A])] =
     Inl ValueError \<and>
   Header_init ''Content-Range'' PyNone [(''content-range'', [])] = PyStr [] \<and>
   ContentRange_init [(''content-range'', [])] =
     Inr \<lparr>cr_value = PyStr [], cr_start = None, cr_end = None, cr_finished = None\<rparr>"
proof -
  let ?v1 = "''bytes 1-3''"
  let ?v2 = "''bytes'' @ [CHR 0x0A] @ ''0-99/*''"
  let ?v3 = "''bytes 0-99/*'' @ [CHR 0x0A, CHR 0x0A]"
  have h1: "Header_init ''Content-Range'' PyNone [(''content-range'', ?v1)] = PyStr ?v1"
    and h2: "Header_init ''Content-Range'' PyNone [(''content-range'', ?v2)] = PyStr ?v2"
    and h3: "Header_init ''Content-Range'' PyNone [(''content-range'', ?v3)] = PyStr ?v3"
    by (simp_all add: lower_def lower_char_def)
  have m1: "RE_PATTERN_match ?v1 = None"
    and m2: "RE_PATTERN_match ?v2 = None"
    and m3: "RE_PATTERN_match ?v3 = None"
    by (simp_all add: RE_PATTERN_match_def is_digit_def at_end_def)
  have g1: "\<not> content_range_grammar ?v1" "\<not> content_range_then_newline ?v1"
    using grammar_match newline_match m1 by blast+
  have g2: "\<not> content_range_grammar ?v2" "\<not> content_range_then_newline ?v2"
    using grammar_match newline_match m2 by blast+
  have g3: "\<not> content_range_grammar ?v3" "\<not> content_range_then_newline ?v3"
    using grammar_match newline_match m3 by blast+
  have n: "?v1 \<noteq> []" "?v2 \<noteq> []" "?v3 \<noteq> []" by simp_all
  have e: "Header_init ''Content-Range'' PyNone [(''content-range'', [])] = PyStr []"
    by (simp add: lower_def lower_char_def)
  have r1: "ContentRange_init [(''content-range'', ?v1)] = Inl ValueError"
    using ContentRange_parser h1 n(1) g1 by blast
  have r2: "ContentRange_init [(''content-range'', ?v2)] = Inl ValueError"
    using ContentRange_parser h2 n(2) g2 by blast
  have r3: "ContentRange_init [(''content-range'', ?v3)] = Inl ValueError"
    using ContentRange_parser h3 n(3) g3 by blast
  have r4: "ContentRange_init [(''content-range'', [])] =
     Inr \<lparr>cr_value = PyStr [], cr_start = None, cr_end = None, cr_finished = None\<rparr>"
    using ContentRange_parser e by blast
  from h1 n(1) g1 r1 g2 r2 g3 r3 e r4 show ?thesis by blast
qed

text \<open>
  A value of the grammar followed by one newline is parsed like the value
  itself, since \<open>$\<close> matches before a newline that ends the string.
\<close>

lemma ContentRange_trailing_newline:
  "ContentRange_init [(''content-range'', ''bytes 0-99/*'' @ [CHR 0x0A])] =
     Inr \<lparr>cr_value = PyStr (''bytes 0-99/*'' @ [CHR 0x0A]), cr_start = Some 0, cr_end = Some 99,
          cr_finished = Some False\<rparr>"
  by (simp add: ContentRange_init_def codec_eval)

section \<open>The range header\<close>

lemma digits_no_special:
  "digits a \<Longrightarrow> CHR ''-'' \<notin> set a \<and> CHR ''='' \<notin> set a"
  using is_digit_not_special by (auto simp: digits_def list_all_iff)

lemma last_rsplit1: "c \<notin> set y \<Longrightarrow> last (rsplit1 c (x @ c # y)) = y"
proof -
  assume c: "c \<notin> set y"
  have "takeWhile (\<lambda>x. x \<noteq> c) (rev y @ c # rev x) = rev y"
    using c by (auto simp: takeWhile_tail)
  then show ?thesis by (simp add: rsplit1_def)
qed

lemma split_on_none: "c \<notin> set b \<Longrightarrow> split_on c b = [b]"
  by (induction b) auto

lemma split_on_two: "c \<notin> set a \<Longrightarrow> c \<notin> set b \<Longrightarrow> split_on c (a @ c # b) = [a, b]"
  by (induction a) (auto simp: split_on_none)

text \<open>
  Claim C10.  \<open>_Range\<close> does not look at the unit: a header value
  \<open><anything>=<s>-<e>\<close> with \<open>s\<close> and \<open>e\<close> runs of digits gives the pair
  \<open>(s, e)\<close>, the same as \<open>bytes=<s>-<e>\<close>.
\<close>

theorem Range_unit_not_validated:
  assumes "Header_init ''Range'' PyNone hdrs = PyStr (u @ ''='' @ s @ ''-'' @ e)"
    and "digits s" and "digits e"
  shows "Range_init hdrs = Inr (int (digits_val s), Some (int (digits_val e))) \<and>
         Range_init hdrs = Range_init [(''range'', ''bytes='' @ s @ ''-'' @ e)]"
proof -
  have eq: "CHR ''='' \<notin> set (s @ ''-'' @ e)"
    using digits_no_special [OF assms(2)] digits_no_special [OF assms(3)] by simp
  have parse: "\<And>w. last (rsplit1 CHR ''='' (w @ ''='' @ s @ ''-'' @ e)) = s @ ''-'' @ e"
    using last_rsplit1 [OF eq] by simp
  have sp: "split_on CHR ''-'' (s @ ''-'' @ e) = [s, e]"
    using split_on_two digits_no_special [OF assms(2)] digits_no_special [OF assms(3)] by simp
  have general: "\<And>h w. Header_init ''Range'' PyNone h = PyStr (w @ ''='' @ s @ ''-'' @ e) \<Longrightarrow>
      Range_init h = Inr (int (digits_val s), Some (int (digits_val e)))"
    using parse sp py_long_digits [OF assms(2)] py_long_digits [OF assms(3)]
    by (simp add: Range_init_def)
  have "Header_init ''Range'' PyNone [(''range'', ''bytes='' @ s @ ''-'' @ e)] =
          PyStr (''bytes'' @ ''='' @ s @ ''-'' @ e)"
    by (simp add: lower_def lower_char_def)
  from general [OF assms(1)] general [OF this] show ?thesis by simp
qed

text \<open>The example \<open>chars=1-3\<close>.\<close>

theorem Range_unit_not_validated_witness:
  "Header_init ''Range'' PyNone [(''range'', ''chars=1-3'')] = PyStr (''chars'' @ ''='' @ ''1'' @ ''-'' @ ''3'') \<and>
   digits ''1'' \<and> digits ''3'' \<and>
   Range_init [(''range'', ''chars=1-3'')] = Inr (1, Some 3) \<and>
   Range_init [(''range'', ''chars=1-3'')] = Range_init [(''range'', ''bytes=1-3'')]"
proof -
  have h: "Header_init ''Range'' PyNone [(''range'', ''chars=1-3'')] =
             PyStr (''chars'' @ ''='' @ ''1'' @ ''-'' @ ''3'')"
    by (simp add: lower_def lower_char_def)
  have d: "digits ''1''" "digits ''3''" by (simp_all add: digits_def is_digit_def)
  note t = Range_unit_not_validated [OF h d]
  have r1: "Range_init [(''range'', ''chars=1-3'')] = Inr (1, Some 3)"
    using conjunct1 [OF t] by (simp add: digits_val_def digit_val_def)
  have r2: "Range_init [(''range'', ''chars=1-3'')] = Range_init [(''range'', ''bytes=1-3'')]"
    using conjunct2 [OF t] by simp
  show ?thesis using h d r1 r2 by blast
qed

section \<open>Upload continuation: PUT\<close>

lemma Header_init_absent:
  "lower HEADER \<notin> set (map (\<lambda>h. lower (fst h)) hdrs) \<Longrightarrow> Header_init HEADER d hdrs = d"
  by (induction hdrs) auto

lemma get_param_upload_id:
  "get_param ''upload_id'' param_dict PyNone =
     Inr (case map_of param_dict ''upload_id'' of None \<Rightarrow> PyNone | Some v \<Rightarrow> PyStr v)"
  by (simp add: get_param_def)

text \<open>
  Claim C1.  A PUT whose content-range header is \<open>bytes <a>-<b>/*\<close> hands
  the chunk to the stub as not final and, when the stub takes it, answers
  308; a PUT whose content-range header is \<open>bytes <a>-<b>/<n>\<close> hands the
  chunk to the stub as final and, when the stub takes it and knows the
  object, answers 200 with the size of the object.  Whatever the stub does, a
  response to the first form has status 308 and a response to the second form
  has status 200.
\<close>

theorem put_chunk_status:
  assumes "Header_init ''Content-Range'' PyNone hdrs = PyStr (content_range_form a b t)"
    and "digits a" and "digits b" and "t = ''*'' \<or> digits t"
  shows "handle_put gs_stub filename param_dict hdrs payload s =
           (let token = (case map_of param_dict ''upload_id'' of
                           None \<Rightarrow> PyNone
                         | Some v \<Rightarrow> PyStr v);
                rng = (int (digits_val a), int (digits_val b))
            in if t = ''*'' then
                 (case put_continue_creation gs_stub token payload rng None s of
                    (Inl e, s') \<Rightarrow> (Inl e, s')
                  | (Inr _, s') \<Rightarrow>
                      (Inr \<lparr>status_code = 308, resp_headers = [], resp_content = []\<rparr>, s'))
               else
                 (case put_continue_creation gs_stub token payload rng (Some True) s of
                    (Inl e, s') \<Rightarrow> (Inl e, s')
                  | (Inr _, s') \<Rightarrow>
                      (case head_object gs_stub filename s' of
                         (Inl e, s'') \<Rightarrow> (Inl e, s'')
                       | (Inr None, s'') \<Rightarrow> (Inl AttributeError, s'')
                       | (Inr (Some filestat), s'') \<Rightarrow>
                           (Inr \<lparr>status_code = 200,
                                 resp_headers = [(''content-length'', PyInt (st_size filestat))],
                                 resp_content = []\<rparr>, s'')))) \<and>
         (\<forall>r s'. handle_put gs_stub filename param_dict hdrs payload s = (Inr r, s') \<longrightarrow>
            status_code r = (if t = ''*'' then 308 else 200))"
proof -
  have cr: "ContentRange_init hdrs =
           Inr \<lparr>cr_value = PyStr (content_range_form a b t),
                cr_start = Some (int (digits_val a)), cr_end = Some (int (digits_val b)),
                cr_finished = Some (t \<noteq> ''*'')\<rparr>"
    using ContentRange_init_form [where r = "[]"] assms by (simp add: at_end_def)
  have ne: "content_range_form a b t \<noteq> []" by (simp add: content_range_form_def)
  have eq: "handle_put gs_stub filename param_dict hdrs payload s =
           (let token = (case map_of param_dict ''upload_id'' of
                           None \<Rightarrow> PyNone
                         | Some v \<Rightarrow> PyStr v);
                rng = (int (digits_val a), int (digits_val b))
            in if t = ''*'' then
                 (case put_continue_creation gs_stub token payload rng None s of
                    (Inl e, s') \<Rightarrow> (Inl e, s')
                  | (Inr _, s') \<Rightarrow>
                      (Inr \<lparr>status_code = 308, resp_headers = [], resp_content = []\<rparr>, s'))
               else
                 (case put_continue_creation gs_stub token payload rng (Some True) s of
                    (Inl e, s') \<Rightarrow> (Inl e, s')
                  | (Inr _, s') \<Rightarrow>
                      (case head_object gs_stub filename s' of
                         (Inl e, s'') \<Rightarrow> (Inl e, s'')
                       | (Inr None, s'') \<Rightarrow> (Inl AttributeError, s'')
                       | (Inr (Some filestat), s'') \<Rightarrow>
                           (Inr \<lparr>status_code = 200,
                                 resp_headers = [(''content-length'', PyInt (st_size filestat))],
                                 resp_content = []\<rparr>, s''))))"
    using ne by (simp add: handle_put_def get_param_upload_id cr attr_def range_of_def Let_def)
  have st: "\<forall>r s'. handle_put gs_stub filename param_dict hdrs payload s = (Inr r, s') \<longrightarrow>
            status_code r = (if t = ''*'' then 308 else 200)"
    unfolding eq
    by (auto simp: Let_def split: prod.splits sum.splits option.splits if_splits)
  from eq st show ?thesis by blast
qed

lemmas handler_eval = handle_put_def handle_get_def handle_head_def handle_get_bucket_def
  handle_post_def handle_delete_def get_param_def ContentRange_init_def Range_init_def
  ContentType_init_def range_of_def attr_def py_min_def rfind_def rsplit1_def dict_update_def
  dict_of_def int_str_def mem_stub_def mem_stat_def codec_eval

text \<open>A chunk \<open>bytes 0-2/*\<close> and a chunk \<open>bytes 0-2/3\<close> on the in-memory service.\<close>

theorem put_chunk_status_witness:
  "Header_init ''Content-Range'' PyNone [(''content-range'', ''bytes 0-2/*'')] =
     PyStr (content_range_form ''0'' ''2'' ''*'') \<and>
   Header_init ''Content-Range'' PyNone [(''content-range'', ''bytes 0-2/3'')] =
     PyStr (content_range_form ''0'' ''2'' ''3'') \<and>
   digits ''0'' \<and> digits ''2'' \<and> digits ''3'' \<and>
   handle_put mem_stub ''/b/f'' [(''upload_id'', ''upload:/b/f'')]
       [(''content-range'', ''bytes 0-2/*'')] ''abc''
       \<lparr>files = [], uploads = [(''upload:/b/f'', (''/b/f'', []))]\<rparr> =
     (Inr \<lparr>status_code = 308, resp_headers = [], resp_content = []\<rparr>,
      \<lparr>files = [], uploads = [(''upload:/b/f'', (''/b/f'', ''abc''))]\<rparr>) \<and>
   handle_put mem_stub ''/b/f'' [(''upload_id'', ''upload:/b/f'')]
       [(''content-range'', ''bytes 0-2/3'')] ''abc''
       \<lparr>files = [], uploads = [(''upload:/b/f'', (''/b/f'', []))]\<rparr> =
     (Inr \<lparr>status_code = 200, resp_headers = [(''content-length'', PyInt 3)],
           resp_content = []\<rparr>,
      \<lparr>files = [(''/b/f'', ''abc'')], uploads = []\<rparr>)"
proof -
  have h1: "Header_init ''Content-Range'' PyNone [(''content-range'', ''bytes 0-2/*'')] =
     PyStr (content_range_form ''0'' ''2'' ''*'')"
    by (simp add: content_range_form_def lower_def lower_char_def)
  have h2: "Header_init ''Content-Range'' PyNone [(''content-range'', ''bytes 0-2/3'')] =
     PyStr (content_range_form ''0'' ''2'' ''3'')"
    by (simp add: content_range_form_def lower_def lower_char_def)
  have d: "digits ''0''" "digits ''2''" "digits ''3''"
    by (simp_all add: digits_def is_digit_def)
  have t1: "''*'' = ''*'' \<or> digits ''*''" by simp
  have t2: "''3'' = ''*'' \<or> digits ''3''" using d by simp
  have r1: "handle_put mem_stub ''/b/f'' [(''upload_id'', ''upload:/b/f'')]
       [(''content-range'', ''bytes 0-2/*'')] ''abc''
       \<lparr>files = [], uploads = [(''upload:/b/f'', (''/b/f'', []))]\<rparr> =
     (Inr \<lparr>status_code = 308, resp_headers = [], resp_content = []\<rparr>,
      \<lparr>files = [], uploads = [(''upload:/b/f'', (''/b/f'', ''abc''))]\<rparr>)"
    using conjunct1 [OF put_chunk_status [OF h1 d(1) d(2) t1, of mem_stub "''/b/f''"
          "[(''upload_id'', ''upload:/b/f'')]" "''abc''"
          "\<lparr>files = [], uploads = [(''upload:/b/f'', (''/b/f'', []))]\<rparr>"]]
    by (simp add: mem_stub_def digits_val_def digit_val_def)
  have r2: "handle_put mem_stub ''/b/f'' [(''upload_id'', ''upload:/b/f'')]
       [(''content-range'', ''bytes 0-2/3'')] ''abc''
       \<lparr>files = [], uploads = [(''upload:/b/f'', (''/b/f'', []))]\<rparr> =
     (Inr \<lparr>status_code = 200, resp_headers = [(''content-length'', PyInt 3)],
           resp_content = []\<rparr>,
      \<lparr>files = [(''/b/f'', ''abc'')], uploads = []\<rparr>)"
    using conjunct1 [OF put_chunk_status [OF h2 d(1) d(2) t2, of mem_stub "''/b/f''"
          "[(''upload_id'', ''upload:/b/f'')]" "''abc''"
          "\<lparr>files = [], uploads = [(''upload:/b/f'', (''/b/f'', []))]\<rparr>"]]
    by (simp add: mem_stub_def mem_stat_def digits_val_def digit_val_def)
  show ?thesis using h1 h2 d r1 r2 by blast
qed

text \<open>
  Claim C2 fails on the code.  After a first chunk has been taken, a PUT with
  an empty payload and no content-range header reaches the branch that
  finalizes, which reads \<open>content_range.start\<close>; the attribute was never
  assigned, so the request ends in \<open>AttributeError\<close>, with nothing committed.
\<close>

theorem put_finalize_without_header_raises:
  "handle_put mem_stub ''/b/f'' [(''upload_id'', ''upload:/b/f'')] [] []
       \<lparr>files = [], uploads = [(''upload:/b/f'', (''/b/f'', ''abc''))]\<rparr> =
     (Inl AttributeError, \<lparr>files = [], uploads = [(''upload:/b/f'', (''/b/f'', ''abc''))]\<rparr>)"
  by (simp add: handle_put_def get_param_def ContentRange_init_def range_of_def attr_def)

text \<open>The same for every stub, every state and every request without the header.\<close>

lemma put_finalize_without_header_general:
  "lower ''Content-Range'' \<notin> set (map (\<lambda>h. lower (fst h)) hdrs) \<Longrightarrow>
   handle_put gs_stub filename param_dict hdrs [] s = (Inl AttributeError, s)"
  by (simp add: Header_init_absent handle_put_def get_param_upload_id ContentRange_init_def
      range_of_def attr_def)

text \<open>
  Claim C3.  A PUT with a payload that is not empty and no content-range
  header raises \<open>ValueError\<close>; the state of the stub is the one before the
  request, whatever the stub is.
\<close>

theorem put_payload_without_header:
  assumes "lower ''Content-Range'' \<notin> set (map (\<lambda>h. lower (fst h)) hdrs)" and "payload \<noteq> []"
  shows "handle_put gs_stub filename param_dict hdrs payload s = (Inl ValueError, s)"
  using assms
  by (simp add: Header_init_absent handle_put_def get_param_upload_id ContentRange_init_def)

text \<open>A payload \<open>abc\<close> with only a content-type header.\<close>

theorem put_payload_without_header_witness:
  "lower ''Content-Range'' \<notin> set (map (\<lambda>h. lower (fst h)) [(''content-type'', ''text/plain'')]) \<and>
   ''abc'' \<noteq> [] \<and>
   handle_put mem_stub ''/b/f'' [(''upload_id'', ''upload:/b/f'')]
       [(''content-type'', ''text/plain'')] ''abc''
       \<lparr>files = [], uploads = [(''upload:/b/f'', (''/b/f'', []))]\<rparr> =
     (Inl ValueError, \<lparr>files = [], uploads = [(''upload:/b/f'', (''/b/f'', []))]\<rparr>)"
proof -
  have a: "lower ''Content-Range'' \<notin>
             set (map (\<lambda>h. lower (fst h)) [(''content-type'', ''text/plain'')])"
    by (simp add: lower_def lower_char_def)
  have b: "''abc'' \<noteq> []" by simp
  from put_payload_without_header [OF a b, where gs_stub = mem_stub] a b show ?thesis by simp
qed

section \<open>Dispatch\<close>

text \<open>
  Claim C9.  The method that \<open>_preprocess\<close> returns is the method of the
  request.  If it is none of POST, PUT, GET, HEAD and DELETE, \<open>dispatch\<close>
  raises \<open>ValueError\<close> and leaves the state of the stub as it was, whatever
  the stub is; for each of the five, \<open>dispatch\<close> is the handler of that
  method and no other.
\<close>

theorem dispatch_by_method:
  assumes "preprocess env method hdrs url = Inr (m, hdrs', filename, param_dict)"
  shows "m = method \<and>
         (method \<notin> set [''POST'', ''PUT'', ''GET'', ''HEAD'', ''DELETE''] \<longrightarrow>
            dispatch env gs_stub method hdrs url payload s = (Inl ValueError, s)) \<and>
         (method = ''POST'' \<longrightarrow>
            dispatch env gs_stub method hdrs url payload s =
              handle_post env gs_stub filename hdrs' s) \<and>
         (method = ''PUT'' \<longrightarrow>
            dispatch env gs_stub method hdrs url payload s =
              handle_put gs_stub filename param_dict hdrs' payload s) \<and>
         (method = ''GET'' \<longrightarrow>
            dispatch env gs_stub method hdrs url payload s =
              handle_get env gs_stub filename param_dict hdrs' s) \<and>
         (method = ''HEAD'' \<longrightarrow>
            dispatch env gs_stub method hdrs url payload s =
              handle_head env gs_stub filename s) \<and>
         (method = ''DELETE'' \<longrightarrow>
            dispatch env gs_stub method hdrs url payload s =
              handle_delete gs_stub filename s)"
proof -
  from assms have m: "m = method"
    by (auto simp: preprocess_def split: prod.splits sum.splits)
  have d: "dispatch env gs_stub method hdrs url payload s =
      (if method = ''POST'' then handle_post env gs_stub filename hdrs' s
       else if method = ''PUT'' then handle_put gs_stub filename param_dict hdrs' payload s
       else if method = ''GET'' then handle_get env gs_stub filename param_dict hdrs' s
       else if method = ''HEAD'' then handle_head env gs_stub filename s
       else if method = ''DELETE'' then handle_delete gs_stub filename s
       else (Inl ValueError, s))"
    using assms m by (simp add: dispatch_def)
  show ?thesis unfolding d using m by simp
qed

text \<open>One request, under each of the five methods, under PATCH and under \<open>get\<close>.\<close>

lemma plain_preprocess:
  "preprocess plain_env method [] ''/b/f?upload_id=x'' =
     Inr (method, [], ''/b/f'', [(''upload_id'', ''x'')])"
  by (simp add: preprocess_def plain_env_def dict_of_def)

theorem dispatch_by_method_witness:
  "preprocess plain_env ''PATCH'' [] ''/b/f?upload_id=x'' =
     Inr (''PATCH'', [], ''/b/f'', [(''upload_id'', ''x'')]) \<and>
   ''PATCH'' \<notin> set [''POST'', ''PUT'', ''GET'', ''HEAD'', ''DELETE''] \<and>
   dispatch plain_env mem_stub ''PATCH'' [] ''/b/f?upload_id=x'' [] \<lparr>files = [], uploads = []\<rparr> =
     (Inl ValueError, \<lparr>files = [], uploads = []\<rparr>) \<and>
   dispatch plain_env mem_stub ''get'' [] ''/b/f?upload_id=x'' [] \<lparr>files = [], uploads = []\<rparr> =
     (Inl ValueError, \<lparr>files = [], uploads = []\<rparr>) \<and>
   dispatch plain_env mem_stub ''POST'' [] ''/b/f?upload_id=x'' [] \<lparr>files = [], uploads = []\<rparr> =
     handle_post plain_env mem_stub ''/b/f'' [] \<lparr>files = [], uploads = []\<rparr> \<and>
   dispatch plain_env mem_stub ''PUT'' [] ''/b/f?upload_id=x'' [] \<lparr>files = [], uploads = []\<rparr> =
     handle_put mem_stub ''/b/f'' [(''upload_id'', ''x'')] [] [] \<lparr>files = [], uploads = []\<rparr> \<and>
   dispatch plain_env mem_stub ''GET'' [] ''/b/f?upload_id=x'' [] \<lparr>files = [], uploads = []\<rparr> =
     handle_get plain_env mem_stub ''/b/f'' [(''upload_id'', ''x'')] [] \<lparr>files = [], uploads = []\<rparr> \<and>
   dispatch plain_env mem_stub ''HEAD'' [] ''/b/f?upload_id=x'' [] \<lparr>files = [], uploads = []\<rparr> =
     handle_head plain_env mem_stub ''/b/f'' \<lparr>files = [], uploads = []\<rparr> \<and>
   dispatch plain_env mem_stub ''DELETE'' [] ''/b/f?upload_id=x'' [] \<lparr>files = [], uploads = []\<rparr> =
     handle_delete mem_stub ''/b/f'' \<lparr>files = [], uploads = []\<rparr>"
  using dispatch_by_method [OF plain_preprocess [of "''PATCH''"], of mem_stub "[]"
      "\<lparr>files = [], uploads = []\<rparr>"]
    dispatch_by_method [OF plain_preprocess [of "''get''"], of mem_stub "[]"
      "\<lparr>files = [], uploads = []\<rparr>"]
    dispatch_by_method [OF plain_preprocess [of "''POST''"], of mem_stub "[]"
      "\<lparr>files = [], uploads = []\<rparr>"]
    dispatch_by_method [OF plain_preprocess [of "''PUT''"], of mem_stub "[]"
      "\<lparr>files = [], uploads = []\<rparr>"]
    dispatch_by_method [OF plain_preprocess [of "''GET''"], of mem_stub "[]"
      "\<lparr>files = [], uploads = []\<rparr>"]
    dispatch_by_method [OF plain_preprocess [of "''HEAD''"], of mem_stub "[]"
      "\<lparr>files = [], uploads = []\<rparr>"]
    dispatch_by_method [OF plain_preprocess [of "''DELETE''"], of mem_stub "[]"
      "\<lparr>files = [], uploads = []\<rparr>"]
    plain_preprocess [of "''PATCH''"]
  by simp

section \<open>Reading an object: GET\<close>

text \<open>
  Claim C4 fails on the code.  For an object \<open>/b/f\<close> that holds \<open>hello\<close>, a GET
  without a range header takes the end of the range to be \<open>min(4, None)\<close>,
  which is \<open>None\<close>, and formatting it with \<open>%d\<close> raises \<open>TypeError\<close>.
\<close>

theorem get_without_range_raises:
  "handle_get plain_env mem_stub ''/b/f'' [] [] \<lparr>files = [(''/b/f'', ''hello'')], uploads = []\<rparr> =
     (Inl TypeError, \<lparr>files = [(''/b/f'', ''hello'')], uploads = []\<rparr>)"
  by (simp add: handler_eval plain_env_def)

text \<open>
  Claim C5 fails on the code.  For the same object and the range
  \<open>bytes=0-4\<close>, the handler answers with the content-range value
  \<open>bytes: 0-4/5\<close>; \<open>_ContentRange\<close> raises \<open>ValueError\<close> on it, because of the
  colon.
\<close>

theorem get_content_range_not_parsed:
  "handle_get plain_env mem_stub ''/b/f'' [] [(''range'', ''bytes=0-4'')]
       \<lparr>files = [(''/b/f'', ''hello'')], uploads = []\<rparr> =
     (Inr \<lparr>status_code = 200,
           resp_headers =
             [(''content-length'', PyInt 5), (''content-type'', PyStr ''binary/octet-stream''),
              (''etag'', PyStr ''etag''), (''last-modified'', PyStr ''Thu, 01 Jan 1970 00:00:00 GMT''),
              (''content-range'', PyStr ''bytes: 0-4/5'')],
           resp_content = ''hello''\<rparr>,
      \<lparr>files = [(''/b/f'', ''hello'')], uploads = []\<rparr>) \<and>
   ContentRange_init [(''content-range'', ''bytes: 0-4/5'')] = Inl ValueError"
  by (simp add: handler_eval plain_env_def nat_str.simps)

text \<open>Without a range header, a GET of an object never gives a response.\<close>

lemma get_without_range_general:
  assumes "rfind CHR ''/'' filename \<noteq> 0"
    and "lower ''Range'' \<notin> set (map (\<lambda>h. lower (fst h)) hdrs)"
  shows "handle_get env gs_stub filename param_dict hdrs s \<noteq> (Inr r, s')"
  using assms
  by (auto simp: handle_get_def Header_init_absent Range_init_def py_min_def
      split: prod.splits sum.splits option.splits pyval.splits)

text \<open>
  Every content-range value that a GET of an object answers with starts with
  \<open>bytes:\<close> and is refused by \<open>_ContentRange\<close>.
\<close>

lemma map_of_dict_set: "map_of (dict_set d k v) k = Some v"
  by (induction d) auto

lemma colon_not_matched: "RE_PATTERN_match (''bytes:'' @ x) = None"
  by (simp add: RE_PATTERN_match_def)

lemma get_content_range_general:
  assumes "rfind CHR ''/'' filename \<noteq> 0"
    and "handle_get env gs_stub filename param_dict hdrs s = (Inr r, s')"
  shows "\<exists>v. map_of (resp_headers r) ''content-range'' = Some (PyStr v) \<and>
             ContentRange_init [(''content-range'', v)] = Inl ValueError"
  using assms colon_not_matched
  by (auto simp: handle_get_def Let_def map_of_dict_set ContentRange_init_def lower_def
      lower_char_def split: prod.splits sum.splits option.splits pyval.splits)

section \<open>Listing a bucket: the page\<close>

text \<open>
  The tree that the handler builds: the \<open>Contents\<close> elements, then the
  \<open>NextMarker\<close> of a full page.  It never has a \<open>MaxKeys\<close> element.
\<close>

lemma contents_loop:
  "foldl (\<lambda>(built, last_object_name) stat.
            (built @ [contents_element env bucketpath stat],
             drop (length bucketpath + 1) (stat_filename stat)))
         (acc, l) stats =
     (acc @ map (contents_element env bucketpath) stats,
      if stats = [] then l else drop (length bucketpath + 1) (stat_filename (last stats)))"
  by (induction stats arbitrary: acc l) auto

lemma list_bucket_result_tree:
  "list_bucket_result env bucketpath stats =
     Element ''ListBucketResult'' [(''xmlns'', CS_XML_NS env)] PyNone
       (map (contents_element env bucketpath) stats @
        (if length stats = 1000
         then [Element ''NextMarker'' []
                 (PyStr (drop (length bucketpath + 1) (stat_filename (last stats)))) []]
         else []))"
  by (simp only: list_bucket_result_def contents_loop Let_def MAX_GET_BUCKET_RESULT_def) auto

lemma find_no_contents:
  "find (\<lambda>c. tag c = ''NextMarker'') (map (contents_element env bucketpath) stats @ rest) =
     find (\<lambda>c. tag c = ''NextMarker'') rest"
  by (induction stats) (auto simp: contents_element_def)

lemma find_next_marker:
  "find_child (list_bucket_result env bucketpath stats) ''NextMarker'' =
     (if length stats = 1000
      then Some (Element ''NextMarker'' []
                   (PyStr (drop (length bucketpath + 1) (stat_filename (last stats)))) [])
      else None)"
  by (simp add: find_child_def list_bucket_result_tree find_no_contents)

lemma no_max_keys_in_page:
  "find_child (list_bucket_result env bucketpath stats) ''MaxKeys'' = None"
proof -
  have "find (\<lambda>c. tag c = ''MaxKeys'') (map (contents_element env bucketpath) stats @ rest) =
          find (\<lambda>c. tag c = ''MaxKeys'') rest" for rest
    by (induction stats) (auto simp: contents_element_def)
  then show ?thesis by (simp add: find_child_def list_bucket_result_tree)
qed

lemma key_of_contents:
  "child_text (contents_element env bucketpath stat) ''Key'' =
     Inr (PyStr (drop (length bucketpath + 1) (stat_filename stat)))"
  by (simp add: child_text_def find_child_def contents_element_def)

text \<open>
  Claim C6, as the code has it.  When the stub gives the entries \<open>stats\<close>,
  the handler answers 200 with the page built from them: one \<open>Contents\<close>
  element per entry, in their order, and after them a \<open>NextMarker\<close> element
  if and only if there are exactly 1000 entries, whether or not the container
  holds more.  When present, its value is the key of the last entry of the
  page.
\<close>

theorem next_marker_iff_page_full:
  assumes "get_param ''max-keys'' param_dict (PyInt MAX_GET_BUCKET_RESULT) = Inr max_keys"
    and "get_bucket gs_stub bucketpath
           (case map_of param_dict ''prefix'' of None \<Rightarrow> PyStr [] | Some v \<Rightarrow> PyStr v)
           (case map_of param_dict ''marker'' of None \<Rightarrow> PyStr [] | Some v \<Rightarrow> PyStr v)
           max_keys s = (Inr stats, s')"
  shows "(\<exists>r. handle_get_bucket env gs_stub bucketpath param_dict s = (Inr r, s') \<and>
              status_code r = 200 \<and>
              resp_content r = tostring env (list_bucket_result env bucketpath stats)) \<and>
         children (list_bucket_result env bucketpath stats) =
           map (contents_element env bucketpath) stats @
           (case find_child (list_bucket_result env bucketpath stats) ''NextMarker'' of
              None \<Rightarrow> []
            | Some next_marker \<Rightarrow> [next_marker]) \<and>
         (find_child (list_bucket_result env bucketpath stats) ''NextMarker'' \<noteq> None
            \<longleftrightarrow> length stats = 1000) \<and>
         (length stats = 1000 \<longrightarrow>
            (\<exists>key. find_child (list_bucket_result env bucketpath stats) ''NextMarker'' =
                     Some (Element ''NextMarker'' [] (PyStr key) []) \<and>
                   child_text (contents_element env bucketpath (last stats)) ''Key'' =
                     Inr (PyStr key)))"
proof -
  have p: "get_param ''prefix'' param_dict (PyStr []) =
             Inr (case map_of param_dict ''prefix'' of None \<Rightarrow> PyStr [] | Some v \<Rightarrow> PyStr v)"
    and m: "get_param ''marker'' param_dict (PyStr []) =
             Inr (case map_of param_dict ''marker'' of None \<Rightarrow> PyStr [] | Some v \<Rightarrow> PyStr v)"
    by (simp_all add: get_param_def)
  have 1: "\<exists>r. handle_get_bucket env gs_stub bucketpath param_dict s = (Inr r, s') \<and>
              status_code r = 200 \<and>
              resp_content r = tostring env (list_bucket_result env bucketpath stats)"
    using assms by (simp add: handle_get_bucket_def p m Let_def)
  have 2: "children (list_bucket_result env bucketpath stats) =
           map (contents_element env bucketpath) stats @
           (case find_child (list_bucket_result env bucketpath stats) ''NextMarker'' of
              None \<Rightarrow> []
            | Some next_marker \<Rightarrow> [next_marker])"
    by (simp add: find_next_marker) (simp add: list_bucket_result_tree)
  have 3: "find_child (list_bucket_result env bucketpath stats) ''NextMarker'' \<noteq> None
            \<longleftrightarrow> length stats = 1000"
    by (simp add: find_next_marker)
  have 4: "length stats = 1000 \<longrightarrow>
            (\<exists>key. find_child (list_bucket_result env bucketpath stats) ''NextMarker'' =
                     Some (Element ''NextMarker'' [] (PyStr key) []) \<and>
                   child_text (contents_element env bucketpath (last stats)) ''Key'' =
                     Inr (PyStr key))"
    by (simp add: find_next_marker key_of_contents)
  from 1 2 3 4 show ?thesis by blast
qed

text \<open>A bucket \<open>/b\<close> of exactly 1000 objects: its first page and what follows it.\<close>

lemma str_less_irrefl [simp]: "\<not> str_less x x"
  by (induction x) auto

lemma str_less_prefix [simp]: "str_less (p @ x) (p @ y) = str_less x y"
  by (induction p) auto

lemma str_less_replicate [simp]: "str_less (replicate m c) (replicate n c) = (m < n)"
proof (induction m arbitrary: n)
  case 0
  then show ?case by (cases n) auto
next
  case (Suc m)
  then show ?case by (cases n) auto
qed

lemma full_bucket_first_page:
  "get_bucket mem_stub ''/b'' (PyStr []) (PyStr []) (PyInt 1000) full_bucket =
     (Inr (map mem_stat (files full_bucket)), full_bucket)"
  by (simp add: mem_stub_def full_bucket_def filter_map comp_def)

lemma full_bucket_length: "length (map mem_stat (files full_bucket)) = 1000"
  by (simp add: full_bucket_def)

lemma full_bucket_last:
  "stat_filename (last (map mem_stat (files full_bucket))) = ''/b/'' @ replicate 1000 CHR ''a''"
  by (simp add: full_bucket_def last_map mem_stat_def)

lemma full_bucket_after_last:
  "get_bucket mem_stub ''/b'' (PyStr []) (PyStr (replicate 1000 CHR ''a'')) (PyInt 1000) full_bucket =
     (Inr [], full_bucket)"
proof -
  have "filter (\<lambda>f. str_less (''/b/'' @ replicate 1000 CHR ''a'') (fst f))
          (map (\<lambda>i. (''/b/'' @ replicate i CHR ''a'', [])) [1..<1001]) = []"
    using str_less_prefix [of "''/b/''"] by (auto simp: filter_empty_conv)
  then show ?thesis
    by (simp add: mem_stub_def full_bucket_def filter_map comp_def)
qed

text \<open>The page of the bucket of 1000 objects, with the default parameters.\<close>

theorem next_marker_iff_page_full_witness:
  "get_param ''max-keys'' [] (PyInt MAX_GET_BUCKET_RESULT) = Inr (PyInt 1000) \<and>
   get_bucket mem_stub ''/b'' (PyStr []) (PyStr []) (PyInt 1000) full_bucket =
     (Inr (map mem_stat (files full_bucket)), full_bucket) \<and>
   length (map mem_stat (files full_bucket)) = 1000 \<and>
   find_child (list_bucket_result plain_env ''/b'' (map mem_stat (files full_bucket)))
       ''NextMarker'' =
     Some (Element ''NextMarker'' [] (PyStr (replicate 1000 CHR ''a'')) []) \<and>
   child_text (contents_element plain_env ''/b'' (last (map mem_stat (files full_bucket))))
       ''Key'' =
     Inr (PyStr (replicate 1000 CHR ''a''))"
proof -
  let ?stats = "map mem_stat (files full_bucket)"
  have h1: "get_param ''max-keys'' [] (PyInt MAX_GET_BUCKET_RESULT) = Inr (PyInt 1000)"
    by (simp add: get_param_def MAX_GET_BUCKET_RESULT_def)
  have h2: "get_bucket mem_stub ''/b''
           (case map_of [] ''prefix'' of None \<Rightarrow> PyStr [] | Some v \<Rightarrow> PyStr v)
           (case map_of [] ''marker'' of None \<Rightarrow> PyStr [] | Some v \<Rightarrow> PyStr v)
           (PyInt 1000) full_bucket = (Inr ?stats, full_bucket)"
    by (simp add: full_bucket_first_page)
  note t = next_marker_iff_page_full [OF h1 h2, of plain_env]
  from t full_bucket_length obtain key where
    k1: "find_child (list_bucket_result plain_env ''/b'' ?stats) ''NextMarker'' =
           Some (Element ''NextMarker'' [] (PyStr key) [])"
    and k2: "child_text (contents_element plain_env ''/b'' (last ?stats)) ''Key'' =
           Inr (PyStr key)"
    by blast
  have "child_text (contents_element plain_env ''/b'' (last ?stats)) ''Key'' =
          Inr (PyStr (replicate 1000 CHR ''a''))"
    by (simp add: key_of_contents full_bucket_last)
  with k2 have "key = replicate 1000 CHR ''a''" by simp
  with k1 k2 h1 full_bucket_first_page full_bucket_length show ?thesis by simp
qed

text \<open>
  Claim C6 as stated fails on the bucket of exactly 1000 objects: the page
  lists all of them, so the container is exhausted and a listing from the
  marker gives nothing, and still the page carries a \<open>NextMarker\<close>.
\<close>

theorem next_marker_on_exhausted_container_counterexample:
  "map_sum id resp_content (fst (handle_get_bucket plain_env mem_stub ''/b'' [] full_bucket)) =
     Inr (render (list_bucket_result plain_env ''/b'' (map mem_stat (files full_bucket)))) \<and>
   length (files full_bucket) = 1000 \<and>
   find_child (list_bucket_result plain_env ''/b'' (map mem_stat (files full_bucket)))
       ''NextMarker'' =
     Some (Element ''NextMarker'' [] (PyStr (replicate 1000 CHR ''a'')) []) \<and>
   get_bucket mem_stub ''/b'' (PyStr []) (PyStr (replicate 1000 CHR ''a'')) (PyInt 1000)
       (snd (handle_get_bucket plain_env mem_stub ''/b'' [] full_bucket)) =
     (Inr [], full_bucket)"
proof -
  have h: "handle_get_bucket plain_env mem_stub ''/b'' [] full_bucket =
     (Inr \<lparr>status_code = 200,
           resp_headers =
             [(''content-length'',
               PyInt (int (length (render (list_bucket_result plain_env ''/b''
                                             (map mem_stat (files full_bucket))))))),
              (''content-type'', PyStr ''application/xml'')],
           resp_content = render (list_bucket_result plain_env ''/b''
                                    (map mem_stat (files full_bucket)))\<rparr>, full_bucket)"
    by (simp add: handle_get_bucket_def get_param_def MAX_GET_BUCKET_RESULT_def
        full_bucket_first_page Let_def) (simp add: plain_env_def)
  have l: "length (files full_bucket) = 1000" by (simp add: full_bucket_def)
  have f: "find_child (list_bucket_result plain_env ''/b'' (map mem_stat (files full_bucket)))
       ''NextMarker'' =
     Some (Element ''NextMarker'' [] (PyStr (replicate 1000 CHR ''a'')) [])"
    using full_bucket_length by (simp add: find_next_marker full_bucket_last)
  show ?thesis using l f full_bucket_after_last by (simp add: h)
qed

section \<open>Listing a bucket: the iterator\<close>

lemma yield_all_order:
  "yield_all env path cs = (ys, None) \<Longrightarrow> map (file_stat_of env path) cs = map Inr ys"
proof (induction cs arbitrary: ys)
  case Nil
  then show ?case by simp
next
  case (Cons c cs)
  then show ?case by (auto split: sum.splits prod.splits)
qed

lemma more_pages_declared:
  "more_pages env root tot =
     (case declared_max_keys env root of
        Inl e \<Rightarrow> Inl e
      | Inr mk \<Rightarrow>
          Inr ((mk = None \<or> tot < the mk) \<and> find_child root (add_ns env ''NextMarker'') \<noteq> None))"
  by (auto simp: more_pages_def declared_max_keys_def Let_def
      split: option.splits pyval.splits sum.splits)

lemma Bucket_iter_done:
  "get_bucket_fut b = None \<Longrightarrow> Bucket_iter n env api b tot w = Some ([], None, b, w)"
  by (simp add: Bucket_iter.simps)

text \<open>
  One turn of the loop of \<open>__iter__\<close>, in which the pending request is
  answered with status 200 and a page that parses, whose entries and whose
  \<open>MaxKeys\<close>, if it has one, are well formed.  The iterator yields all
  entries of the page in the order of the page.  If the page declares a
  \<open>MaxKeys\<close> and the running count has reached it, or if the page has no
  \<open>NextMarker\<close>, the iterator ends there: nothing more is yielded, no request
  is issued, and none is left pending.  Otherwise it sets the marker of its
  options to the text of the \<open>NextMarker\<close> and issues the request for the next
  page before anything further is yielded.  The count is compared with the
  \<open>MaxKeys\<close> of the page only.
\<close>

lemma Bucket_iter_page:
  assumes "get_bucket_fut b = Some fut"
    and "get_result api fut w = (Inr (200, h, content), w1)"
    and "fromstring env content = Inr root"
    and "yield_all env (bucket_path b) (getiterator root (add_ns env ''Contents'')) = (ys, None)"
    and "declared_max_keys env root = Inr mk"
  shows "map (file_stat_of env (bucket_path b)) (getiterator root (add_ns env ''Contents'')) =
           map Inr ys \<and>
         ((mk \<noteq> None \<and> the mk \<le> tot + int (length ys)) \<or>
          find_child root (add_ns env ''NextMarker'') = None \<longrightarrow>
            Bucket_iter (Suc n) env api b tot w =
              Some (ys, None, b\<lparr>get_bucket_fut := None\<rparr>, w1)) \<and>
         (\<forall>nm. (mk = None \<or> tot + int (length ys) < the mk) \<and>
               find_child root (add_ns env ''NextMarker'') = Some nm \<longrightarrow>
            Bucket_iter (Suc n) env api b tot w =
              (let options = dict_set (bucket_options b) ''marker'' (elem_text nm);
                   url = bucket_path b @ ''?'' @ urlencode env options;
                   (fut', w2) = get_bucket_async api url w1
               in map_option (\<lambda>(evs, r). (ys @ Fetch url # evs, r))
                    (Bucket_iter n env api
                       (b\<lparr>bucket_options := options, get_bucket_fut := Some fut'\<rparr>)
                       (tot + int (length ys)) w2)))"
proof (intro conjI impI allI)
  show "map (file_stat_of env (bucket_path b)) (getiterator root (add_ns env ''Contents'')) =
           map Inr ys"
    using assms(4) by (rule yield_all_order)
next
  assume stop: "(mk \<noteq> None \<and> the mk \<le> tot + int (length ys)) \<or>
          find_child root (add_ns env ''NextMarker'') = None"
  have "more_pages env root (tot + int (length ys)) = Inr False"
    using stop assms(5) by (auto simp: more_pages_declared)
  then show "Bucket_iter (Suc n) env api b tot w =
              Some (ys, None, b\<lparr>get_bucket_fut := None\<rparr>, w1)"
    using assms(1-4)
    by (simp add: Bucket_iter.simps [of "Suc n"] check_status_def Bucket_iter_done)
next
  fix nm
  assume go: "(mk = None \<or> tot + int (length ys) < the mk) \<and>
               find_child root (add_ns env ''NextMarker'') = Some nm"
  have "more_pages env root (tot + int (length ys)) = Inr True"
    using go assms(5) by (auto simp: more_pages_declared)
  then show "Bucket_iter (Suc n) env api b tot w =
              (let options = dict_set (bucket_options b) ''marker'' (elem_text nm);
                   url = bucket_path b @ ''?'' @ urlencode env options;
                   (fut', w2) = get_bucket_async api url w1
               in map_option (\<lambda>(evs, r). (ys @ Fetch url # evs, r))
                    (Bucket_iter n env api
                       (b\<lparr>bucket_options := options, get_bucket_fut := Some fut'\<rparr>)
                       (tot + int (length ys)) w2))"
    using assms(1-4) go
    by (simp add: Bucket_iter.simps [of "Suc n"] check_status_def Let_def)
qed

text \<open>
  An iteration that ends without an exception leaves no request pending, and
  a larger bound on the number of pages does not change a result.
\<close>

lemma Bucket_iter_ends_idle:
  "Bucket_iter n env api b tot w = Some (evs, None, b', w') \<Longrightarrow> get_bucket_fut b' = None"
proof (induction n arbitrary: b tot w evs b' w')
  case 0
  then show ?case by (auto simp: Bucket_iter.simps [of 0] split: option.splits)
next
  case (Suc n)
  show ?case
  proof (cases "get_bucket_fut b")
    case None
    with Suc.prems show ?thesis by (simp add: Bucket_iter_done)
  next
    case (Some fut)
    with Suc.prems show ?thesis
      by (auto simp: Bucket_iter.simps [of "Suc n"] Let_def
          split: prod.splits sum.splits option.splits bool.splits dest: Suc.IH)
  qed
qed

lemma Bucket_iter_more_fuel:
  "Bucket_iter n env api b tot w = Some r \<Longrightarrow> Bucket_iter (Suc n) env api b tot w = Some r"
proof (induction n arbitrary: b tot w r)
  case 0
  then show ?case
    by (auto simp: Bucket_iter.simps [of 0] Bucket_iter_done split: option.splits)
next
  case (Suc n)
  show ?case
  proof (cases "get_bucket_fut b")
    case None
    with Suc.prems show ?thesis by (simp add: Bucket_iter_done)
  next
    case (Some fut)
    with Suc.prems show ?thesis
      apply (subst Bucket_iter.simps)
      apply (subst (asm) Bucket_iter.simps)
      apply (auto simp: Let_def split: prod.splits sum.splits option.splits bool.splits
          dest: Suc.IH)
      done
  qed
qed

text \<open>Two pages of a service: the first without \<open>MaxKeys\<close>, the second with \<open>MaxKeys\<close> 2.\<close>

lemmas canned_eval = canned_env_def canned_api_def canned_pages_def ns_element_def add_ns_def
  plain_env_def getiterator_def find_child_def file_stat_of_def child_text_def
  declared_max_keys_def more_pages_def check_status_def listbucket_def Bucket_init_def rfind_def
  int_str_def plain_value_def codec_eval

text \<open>
  Claim C7 fails on the code.  The docstring of \<open>listbucket\<close> gives
  \<open>max_keys\<close> as the maximum number of filenames to match.  For a caller with
  \<open>max_keys = 1\<close> and a first page that has one entry, a \<open>NextMarker\<close> and
  no \<open>MaxKeys\<close>, the count has reached the \<open>max_keys\<close> of the caller after
  one entry, and the iterator still fetches the second page and yields its
  entry: \<open>__iter__\<close> compares the count with the \<open>MaxKeys\<close> of the page
  only, and the pages of the stub dispatcher have none.
\<close>

theorem Bucket_iter_exceeds_max_keys:
  "listbucket canned_env canned_api ''/b'' PyNone PyNone (PyInt 1) () =
     Inr ([Fetch ''/b?max-keys=1''], first_bucket, ()) \<and>
   Bucket_iter 2 canned_env canned_api first_bucket 0 () =
     Some ([Yield ''/b/k1'' 10 (PyStr ''e1''), Fetch ''/b?max-keys=1&marker=k1'',
            Yield ''/b/k2'' 20 (PyStr ''e2'')],
           None, second_bucket\<lparr>get_bucket_fut := None\<rparr>, ())"
proof -
  have 1: "listbucket canned_env canned_api ''/b'' PyNone PyNone (PyInt 1) () =
     Inr ([Fetch ''/b?max-keys=1''], first_bucket, ())"
    by (simp add: canned_eval first_bucket_def nat_str.simps)
  have 2: "Bucket_iter 2 canned_env canned_api first_bucket 0 () =
     Some ([Yield ''/b/k1'' 10 (PyStr ''e1''), Fetch ''/b?max-keys=1&marker=k1'',
            Yield ''/b/k2'' 20 (PyStr ''e2'')],
           None, second_bucket\<lparr>get_bucket_fut := None\<rparr>, ())"
    by (simp add: numeral_2_eq_2 Bucket_iter.simps canned_eval first_bucket_def
        second_bucket_def nat_str.simps)
  from 1 2 show ?thesis by simp
qed

text \<open>The two turns of that iteration: the first goes on, the second ends it.\<close>

lemma Bucket_iter_page_example:
  "get_bucket_fut first_bucket = Some ''/b?max-keys=1'' \<and>
   get_result canned_api ''/b?max-keys=1'' () = (Inr (200, [], ''page 1''), ()) \<and>
   fromstring canned_env ''page 1'' = Inr (the (map_of canned_pages ''page 1'')) \<and>
   yield_all canned_env ''/b''
       (getiterator (the (map_of canned_pages ''page 1'')) (add_ns canned_env ''Contents'')) =
     ([Yield ''/b/k1'' 10 (PyStr ''e1'')], None) \<and>
   declared_max_keys canned_env (the (map_of canned_pages ''page 1'')) = Inr None \<and>
   find_child (the (map_of canned_pages ''page 1'')) (add_ns canned_env ''NextMarker'') =
     Some (ns_element ''NextMarker'' (PyStr ''k1'') []) \<and>
   Bucket_iter (Suc 1) canned_env canned_api first_bucket 0 () =
     map_option (\<lambda>(evs, r). ([Yield ''/b/k1'' 10 (PyStr ''e1'')] @
                              Fetch ''/b?max-keys=1&marker=k1'' # evs, r))
       (Bucket_iter 1 canned_env canned_api second_bucket 1 ()) \<and>
   get_bucket_fut second_bucket = Some ''/b?max-keys=1&marker=k1'' \<and>
   get_result canned_api ''/b?max-keys=1&marker=k1'' () = (Inr (200, [], ''page 2''), ()) \<and>
   fromstring canned_env ''page 2'' = Inr (the (map_of canned_pages ''page 2'')) \<and>
   yield_all canned_env ''/b''
       (getiterator (the (map_of canned_pages ''page 2'')) (add_ns canned_env ''Contents'')) =
     ([Yield ''/b/k2'' 20 (PyStr ''e2'')], None) \<and>
   declared_max_keys canned_env (the (map_of canned_pages ''page 2'')) = Inr (Some 2) \<and>
   Bucket_iter (Suc 0) canned_env canned_api second_bucket 1 () =
     Some ([Yield ''/b/k2'' 20 (PyStr ''e2'')], None, second_bucket\<lparr>get_bucket_fut := None\<rparr>, ())"
proof -
  let ?root1 = "the (map_of canned_pages ''page 1'')"
  let ?root2 = "the (map_of canned_pages ''page 2'')"
  have a1: "get_bucket_fut first_bucket = Some ''/b?max-keys=1''"
    by (simp add: first_bucket_def)
  have a2: "get_result canned_api ''/b?max-keys=1'' () = (Inr (200, [], ''page 1''), ())"
    by (simp add: canned_api_def)
  have a3: "fromstring canned_env ''page 1'' = Inr ?root1"
    by (simp add: canned_env_def canned_pages_def)
  have a4: "yield_all canned_env (bucket_path first_bucket)
       (getiterator ?root1 (add_ns canned_env ''Contents'')) =
     ([Yield ''/b/k1'' 10 (PyStr ''e1'')], None)"
    by (simp add: canned_eval first_bucket_def)
  have a5: "declared_max_keys canned_env ?root1 = Inr None"
    by (simp add: canned_eval)
  have a6: "find_child ?root1 (add_ns canned_env ''NextMarker'') =
     Some (ns_element ''NextMarker'' (PyStr ''k1'') [])"
    by (simp add: canned_eval)
  have b1: "get_bucket_fut second_bucket = Some ''/b?max-keys=1&marker=k1''"
    by (simp add: second_bucket_def)
  have b2: "get_result canned_api ''/b?max-keys=1&marker=k1'' () = (Inr (200, [], ''page 2''), ())"
    by (simp add: canned_api_def)
  have b3: "fromstring canned_env ''page 2'' = Inr ?root2"
    by (simp add: canned_env_def canned_pages_def)
  have b4: "yield_all canned_env (bucket_path second_bucket)
       (getiterator ?root2 (add_ns canned_env ''Contents'')) =
     ([Yield ''/b/k2'' 20 (PyStr ''e2'')], None)"
    by (simp add: canned_eval second_bucket_def)
  have b5: "declared_max_keys canned_env ?root2 = Inr (Some 2)"
    by (simp add: canned_eval)
  note p1 = Bucket_iter_page [OF a1 a2 a3 a4 a5, of 0 1]
  note p2 = Bucket_iter_page [OF b1 b2 b3 b4 b5, of 1 0]
  have u: "urlencode canned_env = plain_urlencode"
    by (simp add: canned_env_def plain_env_def)
  have g: "get_bucket_async canned_api = (\<lambda>url w. (url, w))"
    by (simp add: canned_api_def)
  from p1 a6 have "Bucket_iter (Suc 1) canned_env canned_api first_bucket 0 () =
      (let options = dict_set (bucket_options first_bucket) ''marker''
                       (elem_text (ns_element ''NextMarker'' (PyStr ''k1'') []));
           url = bucket_path first_bucket @ ''?'' @ urlencode canned_env options;
           (fut', w2) = get_bucket_async canned_api url ()
       in map_option (\<lambda>(evs, r). ([Yield ''/b/k1'' 10 (PyStr ''e1'')] @ Fetch url # evs, r))
            (Bucket_iter 1 canned_env canned_api
               (first_bucket\<lparr>bucket_options := options, get_bucket_fut := Some fut'\<rparr>)
               (0 + int (length [Yield ''/b/k1'' 10 (PyStr ''e1'')])) w2))"
    by blast
  also have "\<dots> = map_option (\<lambda>(evs, r). ([Yield ''/b/k1'' 10 (PyStr ''e1'')] @
                              Fetch ''/b?max-keys=1&marker=k1'' # evs, r))
       (Bucket_iter 1 canned_env canned_api second_bucket 1 ())"
    by (simp add: u g first_bucket_def second_bucket_def ns_element_def plain_value_def
        int_str_def nat_str.simps Let_def)
  finally have r1: "Bucket_iter (Suc 1) canned_env canned_api first_bucket 0 () =
     map_option (\<lambda>(evs, r). ([Yield ''/b/k1'' 10 (PyStr ''e1'')] @
                              Fetch ''/b?max-keys=1&marker=k1'' # evs, r))
       (Bucket_iter 1 canned_env canned_api second_bucket 1 ())" .
  have r2: "Bucket_iter (Suc 0) canned_env canned_api second_bucket 1 () =
     Some ([Yield ''/b/k2'' 20 (PyStr ''e2'')], None, second_bucket\<lparr>get_bucket_fut := None\<rparr>, ())"
    using p2 by simp
  from a1 a2 a3 a4 a5 a6 b1 b2 b3 b4 b5 r1 r2 show ?thesis
    by (simp add: first_bucket_def second_bucket_def)
qed

end
